theory Spec2Isabelle
  imports Main "HOL-Library.AList"
begin

section \<open>The room server of Duo: data model\<close>

text \<open>
  The server keeps one in-memory registry of rooms and mutates it from socket event
  handlers. The model follows the server file: every handler is a function from the room
  (or the registry) to the updated room and the list of messages it emits, in the order of
  the source. Values the handler reads from outside (the word list, \<open>Math.random()\<close>,
  \<open>Date.now()\<close>, the answers of the music provider) are fields of an environment record
  that is passed to the handler.

  A value that may be \<open>null\<close> or \<open>undefined\<close> is an \<open>option\<close>. The room page
  sends the user key, the name and the colour as it reads them from the browser's storage,
  where they can be absent, so these three fields of a join are options, and so are the
  fields of the room that are copied from them. The test \<open>!x\<close> on a string that may be
  absent is \<open>\<not> truthy x\<close>, which also holds for the empty string, and \<open>===\<close> between
  two such values is equality of options: \<open>null === null\<close> holds.

  Identifiers, names and message texts are only copied, compared, tested for emptiness and
  concatenated; they are lists of characters. A text that the server trims, lowers or cuts
  (a guess, a word, a wheel option, a note, the fields of a track, a search query) is a list
  of UTF-16 code units, as a JavaScript string is: \<open>trim\<close> removes the white space and
  the line terminators of ECMAScript, and \<open>slice(0, n)\<close> counts code units. The case
  mapping of \<open>String.prototype.toLowerCase\<close> is a table of the platform and not part of
  the sources; it is a field of the environment.

  Each event is handled from its first statement to its last before the next one. This is
  how the server runs every handler but the music control request, which awaits the
  provider: there the model runs the handler to its end with the answers of the
  environment. That handler touches only the music state of the room.
\<close>

type_synonym sid = string
type_synonym stroke = string

text \<open>A JavaScript string as its UTF-16 code units, each an integer from 0 to 65535.\<close>

type_synonym ustring = "int list"

record user =
  userKey :: "string option"
  socketId :: "string option"
  name :: "string option"
  color :: "string option"
  status :: string
  points :: nat
  currentGame :: string

record game =
  drawerId :: "string option"
  guesserId :: "string option"
  drawerUserKey :: "string option"
  guesserUserKey :: "string option"
  currentWord :: "ustring option"
  strokes :: "stroke list"
  winnerUserKey :: "string option"
  wrongGuessCount :: nat
  wheelTurnUserKey :: "string option"
  wheelOptions :: "ustring list"

record session =
  accessToken :: "string option"
  refreshToken :: "string option"
  expiresAt :: int

record track =
  track_id :: ustring
  uri :: ustring
  track_name :: ustring
  artists :: ustring
  albumImage :: ustring

record suggestion = track +
  suggestionId :: string
  suggestedByUserKey :: "string option"
  suggestedByName :: "string option"
  createdAt :: int

record queue_entry = track +
  queueId :: string
  queuedByUserKey :: "string option"
  queuedByName :: "string option"
  acceptedByUserKey :: "string option"
  acceptedAt :: int

record music =
  hostUserKey :: "string option"
  hostSocketId :: "string option"
  hostName :: "string option"
  hostDeviceId :: "string option"
  hasHostSession :: bool
  clientId :: "string option"
  hostSession :: "session option"
  suggestions :: "suggestion list"
  queue :: "queue_entry list"

record lobby_note =
  note_id :: string
  note_userKey :: "string option"
  note_name :: "string option"
  note_color :: "string option"
  note_text :: ustring
  note_createdAt :: int

record room =
  roomId :: string
  pin :: string
  users :: "user list"
  game :: game
  music :: music
  lobbyNotes :: "lobby_note list"

text \<open>
  The registry \<open>rooms\<close>: room identifiers with their rooms, in insertion order. The
  module that holds it is not among the sources at hand; it is a table that is empty when
  the server starts.
\<close>

type_synonym rooms = "(string \<times> room) list"

subsection \<open>What a handler reads from outside\<close>

text \<open>
  The body of a provider response, as far as the server reads it: the three fields of a
  token response, and for the player and search calls the playing flag, the current item
  and the found items (kept opaque).
\<close>

record body =
  access_token :: "string option"
  refresh_token :: "string option"
  expires_in :: int
  item :: "string option"
  is_playing :: bool
  tracks :: "string list"

text \<open>
  One awaited \<open>fetch\<close>: it rejects with a message, or it answers with a status and a
  body; \<open>Inl\<close> is a body on which \<open>res.json()\<close> throws with that message.
\<close>

datatype http_result = Rejected string | Response nat "string + body"

text \<open>
  The environment of one handler run: the word list, the case mapping
  \<open>String.prototype.toLowerCase\<close>, the draw of \<open>Math.random()\<close> where an index is
  computed from it, the value of \<open>Date.now()\<close>, the six characters
  \<open>Math.random().toString(36).slice(2, 8)\<close> where an identifier is made, and the answers
  of the provider to the calls of this run, in order.
\<close>

record env =
  words :: "ustring list"
  toLowerCase :: "ustring \<Rightarrow> ustring"
  random :: nat
  now :: int
  rand36 :: string
  http :: "http_result list"

subsection \<open>Messages\<close>

datatype reply =
    ReplyFail string
  | ReplyOk
  | ReplyNull
  | ReplyTrack string
  | ReplySearch "string list"
  | ReplyQueued queue_entry

datatype message =
    ROOM_STATE room
  | ASSIGN_WORD "ustring option"
  | JOIN_ERROR string
  | MUSIC_ERROR string
  | CANVAS_STATE "stroke list"
  | DRAW_RELAY stroke
  | CLEAR_CANVAS
  | WRONG_GUESS string
  | ROUND_RESULT "ustring option" "string option" nat nat
  | ROUND_SKIPPED "ustring option"
  | GAME_WINNER "string option" "string option" nat nat
  | GAME_RESTARTED
  | WHEEL_RESULT ustring nat "string option"
  | RESPONSE reply

text \<open>
  \<open>Self s\<close> is \<open>socket.emit\<close>, \<open>To x\<close> is \<open>io.to(x).emit\<close> (a room name or a
  socket id, possibly \<open>null\<close>), \<open>Others s r\<close> is \<open>socket.to(r).emit\<close> and
  \<open>Callback\<close> is the acknowledgement function of a request.
\<close>

datatype target = Self sid | To "string option" | Others sid string | Callback

type_synonym emit = "target \<times> message"

record track_in =
  in_id :: ustring
  in_uri :: ustring
  in_name :: ustring
  in_artists :: ustring
  in_albumImage :: ustring

datatype action =
    CURRENT_TRACK
  | SEARCH ustring
  | PLAY_URI ustring
  | PLAY_QUEUED_NEXT
  | TOGGLE_PLAY_PAUSE
  | NEXT
  | PREV
  | OTHER_ACTION string

datatype event =
    CREATE_ROOM string string "string option" "string option" "string option"
  | JOIN_ROOM string string "string option" "string option" "string option"
  | DRAW string stroke
  | CLEAR_CANVAS_REQUEST string
  | GUESS string ustring
  | SKIP_ROUND string
  | RESTART_GAME string
  | SET_ACTIVE_GAME string string
  | CLAIM_MUSIC_HOST string
  | RELEASE_MUSIC_HOST string
  | MUSIC_SUGGEST_TRACK string "track_in option"
  | MUSIC_ACCEPT_SUGGESTION string string
  | MUSIC_REJECT_SUGGESTION string string
  | MUSIC_ADD_TO_QUEUE string "track_in option"
  | SPOTIFY_HOST_SESSION_UPDATE string string "session option"
  | SPOTIFY_HOST_DEVICE_UPDATE string string
  | MUSIC_CONTROL_REQUEST string action
  | SET_WHEEL_OPTIONS string "ustring list option"
  | ADD_LOBBY_NOTE string ustring
  | DELETE_LOBBY_NOTE string string
  | SPIN_WHEEL string
  | DISCONNECT

section \<open>Constants and helper functions\<close>

text \<open>
  The code units of a text written with the characters U+0000 to U+00FF, which are their
  own code units; it is used for the literals of the source.
\<close>

definition utf16 :: "string \<Rightarrow> ustring" where
  "utf16 s = map of_char s"

definition MAX_SCORE :: nat where "MAX_SCORE = 5"
definition MAX_WRONG_GUESSES :: nat where "MAX_WRONG_GUESSES = 5"
definition MAX_LOBBY_NOTES :: nat where "MAX_LOBBY_NOTES = 50"
definition MAX_MUSIC_SUGGESTIONS :: nat where "MAX_MUSIC_SUGGESTIONS = 100"
definition MAX_MUSIC_QUEUE :: nat where "MAX_MUSIC_QUEUE = 200"

definition DEFAULT_WHEEL_OPTIONS :: "ustring list" where
  "DEFAULT_WHEEL_OPTIONS =
     map utf16
       [''Movie night pick'', ''Coffee date challenge'', ''Sing one chorus'',
        ''Tell a fun memory'']"

fun truthy :: "'a list option \<Rightarrow> bool" where
  "truthy None = False"
| "truthy (Some s) = (s \<noteq> [])"

text \<open>\<open>x || null\<close> on a string that may be absent.\<close>

definition or_null :: "string option \<Rightarrow> string option" where
  "or_null x = (if truthy x then x else None)"

text \<open>
  The code units that \<open>String.prototype.trim\<close> removes: the white space of ECMAScript
  (tab, vertical tab, form feed, space, no-break space, the zero width no-break space
  U+FEFF and the other space separators U+1680, U+2000 to U+200A, U+202F, U+205F, U+3000)
  and its line terminators (line feed, carriage return, U+2028, U+2029).
\<close>

definition is_space :: "int \<Rightarrow> bool" where
  "is_space c =
     (c \<in> set [9, 10, 11, 12, 13, 32, 160, 5760, 8232, 8233, 8239, 8287, 12288, 65279] \<or>
      (8192 \<le> c \<and> c \<le> 8202))"

definition trim :: "ustring \<Rightarrow> ustring" where
  "trim s = rev (dropWhile is_space (rev (dropWhile is_space s)))"

text \<open>The decimal digits of a number, for the template strings.\<close>

fun show_nat :: "nat \<Rightarrow> string" where
  "show_nat n =
     (if n < 10 then [char_of (48 + n)]
      else show_nat (n div 10) @ [char_of (48 + n mod 10)])"

definition show_int :: "int \<Rightarrow> string" where
  "show_int i = (if i < 0 then CHR ''-'' # show_nat (nat (- i)) else show_nat (nat i))"

text \<open>The last \<open>n\<close> elements: \<open>xs.slice(-n)\<close>.\<close>

definition slice_last :: "nat \<Rightarrow> 'a list \<Rightarrow> 'a list" where
  "slice_last n xs = drop (length xs - n) xs"

text \<open>
  A member found with \<open>users.find\<close> is the list element itself, so an assignment to one
  of its fields changes the first element that satisfies the test.
\<close>

fun upd_first :: "('a \<Rightarrow> bool) \<Rightarrow> ('a \<Rightarrow> 'a) \<Rightarrow> 'a list \<Rightarrow> 'a list" where
  "upd_first P f [] = []"
| "upd_first P f (x # xs) = (if P x then f x # xs else x # upd_first P f xs)"

text \<open>
  \<open>randomWord\<close>: the module with the word list is not part of the sources at hand, so
  the list is a field of the environment. \<open>Math.floor(Math.random() * n)\<close> is the draw
  \<open>random e mod n\<close>, any index below \<open>n\<close>; on an empty list the source reads
  \<open>words[0]\<close>, which is \<open>undefined\<close>.
\<close>

definition randomWord :: "env \<Rightarrow> ustring option" where
  "randomWord e =
     (if words e = [] then None else Some (words e ! (random e mod length (words e))))"

text \<open>
  \<open>normalizeWheelOptions\<close>: the loop over the raw options with the set \<open>seen\<close> of
  lowered values and the result so far; it stops at 24 options.
\<close>

fun normalize_loop ::
  "env \<Rightarrow> ustring list \<Rightarrow> ustring list \<Rightarrow> ustring list \<Rightarrow> ustring list" where
  "normalize_loop e seen result [] = result"
| "normalize_loop e seen result (raw # rest) =
     (let v = take 80 (trim raw) in
      if v = [] then normalize_loop e seen result rest
      else let k = toLowerCase e v in
        if k \<in> set seen then normalize_loop e seen result rest
        else if length (result @ [v]) \<ge> 24 then result @ [v]
        else normalize_loop e (k # seen) (result @ [v]) rest)"

text \<open>\<open>None\<close> is an argument that is not an array.\<close>

definition normalizeWheelOptions :: "env \<Rightarrow> ustring list option \<Rightarrow> ustring list" where
  "normalizeWheelOptions e options =
     (case options of None \<Rightarrow> [] | Some xs \<Rightarrow> normalize_loop e [] [] xs)"

definition normalizeLobbyNote :: "ustring \<Rightarrow> ustring" where
  "normalizeLobbyNote txt = take 220 (trim txt)"

definition makeId :: "env \<Rightarrow> string \<Rightarrow> string" where
  "makeId e prefix = prefix @ ''-'' @ show_int (now e) @ ''-'' @ rand36 e"

definition startsWith :: "ustring \<Rightarrow> ustring \<Rightarrow> bool" where
  "startsWith s p = (take (length p) s = p)"

definition normalizeTrackCandidate :: "track_in option \<Rightarrow> track option" where
  "normalizeTrackCandidate t =
     (case t of None \<Rightarrow> None
      | Some tr \<Rightarrow>
          let u = trim (in_uri tr); n = take 160 (trim (in_name tr)) in
          if u = [] \<or> n = [] then None
          else if \<not> startsWith u (utf16 ''spotify:track:'') then None
          else Some \<lparr> track_id = take 120 (trim (in_id tr)), uri = u, track_name = n,
                      artists = take 220 (trim (in_artists tr)),
                      albumImage = take 500 (trim (in_albumImage tr)) \<rparr>)"

section \<open>Roles, rounds and the wheel turn\<close>

text \<open>\<open>!!u.socketId\<close>, and the status label \<open>u.socketId ? s : "DISCONNECTED"\<close>.\<close>

definition connected :: "user \<Rightarrow> bool" where
  "connected u = truthy (socketId u)"

definition label :: "user \<Rightarrow> string \<Rightarrow> string" where
  "label u s = (if connected u then s else ''DISCONNECTED'')"

definition syncStatuses :: "room \<Rightarrow> room" where
  "syncStatuses room =
     room\<lparr>users :=
       map (\<lambda>u.
         if userKey u = drawerUserKey (game room) then u\<lparr>status := label u ''DRAWING''\<rparr>
         else if userKey u = guesserUserKey (game room)
           then u\<lparr>status := label u ''GUESSING''\<rparr>
         else u\<lparr>status := label u ''WAITING''\<rparr>) (users room)\<rparr>"

text \<open>\<open>member?.socketId || null\<close> for a member that \<open>find\<close> may not have found.\<close>

definition socket_of :: "user option \<Rightarrow> string option" where
  "socket_of m = (case m of None \<Rightarrow> None | Some u \<Rightarrow> or_null (socketId u))"

definition rotateRoles :: "env \<Rightarrow> room \<Rightarrow> room" where
  "rotateRoles e room =
     (let nextDrawerUserKey = guesserUserKey (game room);
          nextGuesserUserKey = drawerUserKey (game room);
          nextDrawer = find (\<lambda>u. userKey u = nextDrawerUserKey) (users room);
          nextGuesser = find (\<lambda>u. userKey u = nextGuesserUserKey) (users room)
      in syncStatuses (room\<lparr>game := (game room)\<lparr>
           drawerUserKey := nextDrawerUserKey,
           guesserUserKey := nextGuesserUserKey,
           drawerId := socket_of nextDrawer,
           guesserId := socket_of nextGuesser,
           currentWord := randomWord e,
           strokes := [],
           winnerUserKey := None,
           wrongGuessCount := 0\<rparr>\<rparr>))"

definition startRound :: "env \<Rightarrow> room \<Rightarrow> room" where
  "startRound e room =
     (let connectedUsers = filter connected (users room) in
      if length connectedUsers < 2 then
        syncStatuses (room\<lparr>game := (game room)\<lparr>
          drawerId := None,
          guesserId := None,
          drawerUserKey := None,
          guesserUserKey := None,
          currentWord := None,
          strokes := [],
          winnerUserKey := None\<rparr>\<rparr>)
      else
        let u1 = connectedUsers ! 0; u2 = connectedUsers ! 1 in
        syncStatuses (room\<lparr>game := (game room)\<lparr>
          drawerId := socketId u1,
          guesserId := socketId u2,
          drawerUserKey := userKey u1,
          guesserUserKey := userKey u2,
          currentWord := randomWord e,
          strokes := [],
          winnerUserKey := None,
          wrongGuessCount := 0\<rparr>\<rparr>))"

text \<open>The members who are connected and on the wheel tab, as both wheel functions filter them.\<close>

definition wheelUsers :: "room \<Rightarrow> user list" where
  "wheelUsers room = filter (\<lambda>u. connected u \<and> currentGame u = ''WHEEL'') (users room)"

definition syncWheelTurn :: "room \<Rightarrow> room" where
  "syncWheelTurn room =
     (if wheelUsers room = [] then room\<lparr>game := (game room)\<lparr>wheelTurnUserKey := None\<rparr>\<rparr>
      else if \<not> list_ex (\<lambda>u. userKey u = wheelTurnUserKey (game room)) (wheelUsers room)
        then room\<lparr>game := (game room)\<lparr>
               wheelTurnUserKey := userKey (wheelUsers room ! 0)\<rparr>\<rparr>
      else room)"

section \<open>The event handlers\<close>

text \<open>
  A handler of a room takes the socket that sent the event, the payload and the room, and
  returns the room after the event with the messages emitted. \<open>rid\<close> is the room
  identifier of the payload, which names the broadcast target.
\<close>

text \<open>The member and the room that \<open>CREATE_ROOM\<close> and the creating join build.\<close>

definition new_user :: "sid \<Rightarrow> string option \<Rightarrow> string option \<Rightarrow> string option \<Rightarrow> user" where
  "new_user s name' color' userKey' =
     \<lparr> userKey = userKey', socketId = Some s, name = name', color = color',
       status = ''WAITING'', points = 0, currentGame = ''DRAWING'' \<rparr>"

definition new_room ::
  "sid \<Rightarrow> string \<Rightarrow> string \<Rightarrow> string option \<Rightarrow> string option \<Rightarrow> string option \<Rightarrow> room" where
  "new_room s rid pin' name' color' userKey' =
     \<lparr> roomId = rid, pin = pin',
       users = [new_user s name' color' userKey'],
       game = \<lparr> drawerId = None, guesserId = None, drawerUserKey = None,
                guesserUserKey = None, currentWord = None, strokes = [],
                winnerUserKey = None, wrongGuessCount = 0, wheelTurnUserKey = None,
                wheelOptions = DEFAULT_WHEEL_OPTIONS \<rparr>,
       music = \<lparr> hostUserKey = None, hostSocketId = None, hostName = None,
                 hostDeviceId = None, hasHostSession = False, clientId = None,
                 hostSession = None, suggestions = [], queue = [] \<rparr>,
       lobbyNotes = [] \<rparr>"

definition create_room ::
  "sid \<Rightarrow> string \<Rightarrow> string \<Rightarrow> string option \<Rightarrow> string option \<Rightarrow> string option \<Rightarrow> rooms
     \<Rightarrow> rooms \<times> emit list" where
  "create_room s rid pin' name' color' userKey' rs =
     (case map_of rs rid of
        Some _ \<Rightarrow> (rs, [])
      | None \<Rightarrow>
          let room = new_room s rid pin' name' color' userKey' in
          (AList.update rid room rs, [(To (Some rid), ROOM_STATE room)]))"

text \<open>\<open>room.users.find((u) => u.socketId === socket.id)\<close>: the first member on this socket.\<close>

definition by_socket :: "sid \<Rightarrow> room \<Rightarrow> user option" where
  "by_socket s room = find (\<lambda>u. socketId u = Some s) (users room)"

text \<open>The rejoin branch: the member found by its key is bound to the new socket.\<close>

definition rejoin :: "sid \<Rightarrow> user \<Rightarrow> room \<Rightarrow> room" where
  "rejoin s usr room =
     room\<lparr>users :=
            upd_first (\<lambda>u. userKey u = userKey usr)
              (\<lambda>u. u\<lparr>socketId := Some s,
                      currentGame := (if currentGame u = [] then ''DRAWING'' else currentGame u)\<rparr>)
              (users room),
          game := (game room)\<lparr>
            drawerId := (if drawerUserKey (game room) = userKey usr then Some s
                         else drawerId (game room)),
            guesserId := (if guesserUserKey (game room) = userKey usr then Some s
                          else guesserId (game room))\<rparr>\<rparr>"

text \<open>"Start game if ready".\<close>

definition join_start :: "env \<Rightarrow> room \<Rightarrow> room \<times> emit list" where
  "join_start e room =
     (if length (users room) = 2 \<and> \<not> truthy (drawerUserKey (game room)) then
        let u1 = users room ! 0; u2 = users room ! 1;
            room' = room\<lparr>game := (game room)\<lparr>
              drawerId := socketId u1,
              guesserId := socketId u2,
              drawerUserKey := userKey u1,
              guesserUserKey := userKey u2,
              currentWord := randomWord e,
              winnerUserKey := None\<rparr>\<rparr>
        in (room', [(To (drawerId (game room')), ASSIGN_WORD (currentWord (game room')))])
      else (room, []))"

text \<open>
  The end of a successful join: start the game if ready, send the word again to a drawer
  who rejoins, replay the canvas, recompute statuses and wheel turn, send the snapshot.
\<close>

definition join_finish ::
  "env \<Rightarrow> sid \<Rightarrow> string \<Rightarrow> string option \<Rightarrow> room \<Rightarrow> room \<times> emit list" where
  "join_finish e s rid userKey' room =
     (let (r1, o1) = join_start e room;
          o2 = (if truthy (currentWord (game r1)) \<and> drawerUserKey (game r1) = userKey'
                then [(To (Some s), ASSIGN_WORD (currentWord (game r1)))] else []);
          o3 = [(To (Some s), CANVAS_STATE (strokes (game r1)))];
          r2 = syncWheelTurn (syncStatuses r1)
      in (r2, o1 @ o2 @ o3 @ [(Self s, ROOM_STATE r2), (To (Some rid), ROOM_STATE r2)]))"

text \<open>\<open>JOIN_ROOM\<close> for a room that exists: pin check, rejoin or admission.\<close>

definition join_existing ::
  "env \<Rightarrow> sid \<Rightarrow> string \<Rightarrow> string \<Rightarrow> string option \<Rightarrow> string option \<Rightarrow> string option \<Rightarrow> room
     \<Rightarrow> room \<times> emit list" where
  "join_existing e s rid pin' name' color' userKey' room =
     (if pin room \<noteq> pin' then (room, [(Self s, JOIN_ERROR ''Invalid PIN for this room.'')])
      else case find (\<lambda>u. userKey u = userKey') (users room) of
        Some usr \<Rightarrow> join_finish e s rid userKey' (rejoin s usr room)
      | None \<Rightarrow>
          if length (users room) \<ge> 2 then (room, [(Self s, JOIN_ERROR ''Room is full.'')])
          else join_finish e s rid userKey'
                 (room\<lparr>users := users room @ [new_user s name' color' userKey']\<rparr>))"

definition join_room ::
  "env \<Rightarrow> sid \<Rightarrow> string \<Rightarrow> string \<Rightarrow> string option \<Rightarrow> string option \<Rightarrow> string option \<Rightarrow> rooms
     \<Rightarrow> rooms \<times> emit list" where
  "join_room e s rid pin' name' color' userKey' rs =
     (case map_of rs rid of
        None \<Rightarrow>
          let room = new_room s rid pin' name' color' userKey' in
          (AList.update rid room rs,
           [(Self s, ROOM_STATE room), (To (Some rid), ROOM_STATE room)])
      | Some room \<Rightarrow>
          let (room', out) = join_existing e s rid pin' name' color' userKey' room in
          (AList.update rid room' rs, out))"

definition draw :: "sid \<Rightarrow> string \<Rightarrow> stroke \<Rightarrow> room \<Rightarrow> room \<times> emit list" where
  "draw s rid stroke' room =
     (if Some s \<noteq> drawerId (game room) then (room, [])
      else (room\<lparr>game := (game room)\<lparr>strokes := strokes (game room) @ [stroke']\<rparr>\<rparr>,
            [(Others s rid, DRAW_RELAY stroke')]))"

definition clear_canvas_request :: "sid \<Rightarrow> string \<Rightarrow> room \<Rightarrow> room \<times> emit list" where
  "clear_canvas_request s rid room =
     (if Some s \<noteq> drawerId (game room) then (room, [])
      else (room\<lparr>game := (game room)\<lparr>strokes := []\<rparr>\<rparr>, [(To (Some rid), CLEAR_CANVAS)]))"

text \<open>The messages that follow a rotation: the new word goes to the new drawer's socket.\<close>

definition assign_word :: "room \<Rightarrow> emit list" where
  "assign_word room =
     (if truthy (drawerId (game room))
      then [(To (drawerId (game room)), ASSIGN_WORD (currentWord (game room)))] else [])"

text \<open>
  The comparison of \<open>GUESS\<close>:
  \<open>guess.toLowerCase().trim() === room.game.currentWord.toLowerCase()\<close>.
\<close>

definition guess_matches :: "env \<Rightarrow> ustring \<Rightarrow> ustring \<Rightarrow> bool" where
  "guess_matches e g w = (trim (toLowerCase e g) = toLowerCase e w)"

text \<open>The mismatch branch and the match branch of \<open>GUESS\<close>.\<close>

definition guess_wrong :: "env \<Rightarrow> sid \<Rightarrow> string \<Rightarrow> room \<Rightarrow> room \<times> emit list" where
  "guess_wrong e s rid room =
     (let room1 = room\<lparr>game := (game room)\<lparr>
            wrongGuessCount := wrongGuessCount (game room) + 1\<rparr>\<rparr> in
      if wrongGuessCount (game room1) \<ge> MAX_WRONG_GUESSES then
        let skippedWord = currentWord (game room1);
            room2 = rotateRoles e room1
        in (room2, [(To (Some rid), ROUND_SKIPPED skippedWord)] @ assign_word room2 @
                   [(To (Some rid), CLEAR_CANVAS), (To (Some rid), ROOM_STATE room2)])
      else (room1, [(To (Some s), WRONG_GUESS (''Wrong guess ('' @
              show_nat (wrongGuessCount (game room1)) @ ''/'' @
              show_nat MAX_WRONG_GUESSES @ '').''))]))"

definition guess_right :: "env \<Rightarrow> string \<Rightarrow> room \<Rightarrow> room \<times> emit list" where
  "guess_right e rid room =
     (let guessedWord = currentWord (game room);
          is_guesser = (\<lambda>u. userKey u = guesserUserKey (game room)) in
      case find is_guesser (users room) of
        None \<Rightarrow> (room, [])
      | Some found \<Rightarrow>
          let guesser = found\<lparr>points := points found + 1\<rparr>;
              room1 = room\<lparr>users :=
                upd_first is_guesser (\<lambda>u. u\<lparr>points := points u + 1\<rparr>) (users room)\<rparr>
          in
          if points guesser \<ge> MAX_SCORE then
            let room2 = room1\<lparr>
                  game := (game room1)\<lparr>
                    winnerUserKey := userKey guesser,
                    drawerId := None,
                    guesserId := None,
                    drawerUserKey := None,
                    guesserUserKey := None,
                    currentWord := None,
                    strokes := [],
                    wrongGuessCount := 0\<rparr>,
                  users := map (\<lambda>u. u\<lparr>status := label u ''WAITING''\<rparr>) (users room1)\<rparr>
            in (room2,
                [(To (Some rid), CLEAR_CANVAS),
                 (To (Some rid),
                  GAME_WINNER (userKey guesser) (name guesser) (points guesser) MAX_SCORE),
                 (To (Some rid), ROOM_STATE room2)])
          else
            let room2 = rotateRoles e room1
            in (room2,
                [(To (Some rid),
                  ROUND_RESULT guessedWord (userKey guesser) (points guesser) MAX_SCORE)] @
                assign_word room2 @
                [(To (Some rid), CLEAR_CANVAS), (To (Some rid), ROOM_STATE room2)]))"

text \<open>
  The guard of \<open>GUESS\<close> and \<open>SKIP_ROUND\<close>: a word is active, both roles are set and
  the sender is the socket bound to the guesser role.
\<close>

definition guesser_may_act :: "sid \<Rightarrow> room \<Rightarrow> bool" where
  "guesser_may_act s room =
     (if \<not> truthy (currentWord (game room)) then False
      else if \<not> truthy (drawerUserKey (game room)) \<or> \<not> truthy (guesserUserKey (game room))
        then False
      else if Some s \<noteq> guesserId (game room) then False
      else True)"

definition guess :: "env \<Rightarrow> sid \<Rightarrow> string \<Rightarrow> ustring \<Rightarrow> room \<Rightarrow> room \<times> emit list" where
  "guess e s rid g room =
     (if \<not> guesser_may_act s room then (room, [])
      else if \<not> guess_matches e g (the (currentWord (game room))) then guess_wrong e s rid room
      else guess_right e rid room)"

definition skip_round :: "env \<Rightarrow> sid \<Rightarrow> string \<Rightarrow> room \<Rightarrow> room \<times> emit list" where
  "skip_round e s rid room =
     (if \<not> guesser_may_act s room then (room, [])
      else
        let skippedWord = currentWord (game room);
            room2 = rotateRoles e room
        in (room2, [(To (Some rid), ROUND_SKIPPED skippedWord)] @ assign_word room2 @
                   [(To (Some rid), CLEAR_CANVAS), (To (Some rid), ROOM_STATE room2)]))"

definition restart_game :: "env \<Rightarrow> sid \<Rightarrow> string \<Rightarrow> room \<Rightarrow> room \<times> emit list" where
  "restart_game e s rid room =
     (case by_socket s room of
        None \<Rightarrow> (room, [])
      | Some requester \<Rightarrow>
          let room1 = room\<lparr>users := map (\<lambda>u. u\<lparr>points := 0\<rparr>) (users room)\<rparr>;
              room2 = syncWheelTurn (startRound e room1)
          in (room2, assign_word room2 @
                     [(To (Some rid), CLEAR_CANVAS), (To (Some rid), GAME_RESTARTED),
                      (To (Some rid), ROOM_STATE room2)]))"

definition set_active_game :: "sid \<Rightarrow> string \<Rightarrow> string \<Rightarrow> room \<Rightarrow> room \<times> emit list" where
  "set_active_game s rid g room =
     (if g \<noteq> ''DRAWING'' \<and> g \<noteq> ''WHEEL'' \<and> g \<noteq> ''MUSIC'' \<and> g \<noteq> ''LOBBY'' then (room, [])
      else case by_socket s room of
        None \<Rightarrow> (room, [])
      | Some usr \<Rightarrow>
          let room1 = syncWheelTurn (room\<lparr>users :=
                upd_first (\<lambda>u. socketId u = Some s) (\<lambda>u. u\<lparr>currentGame := g\<rparr>) (users room)\<rparr>)
          in (room1, [(To (Some rid), ROOM_STATE room1)]))"

subsection \<open>Music host and queues\<close>

text \<open>
  \<open>CLAIM_MUSIC_HOST\<close>: the assignments of a granted claim, the message of a refused
  one, and the handler.
\<close>

definition claim_grant :: "sid \<Rightarrow> string \<Rightarrow> user \<Rightarrow> room \<Rightarrow> room \<times> emit list" where
  "claim_grant s rid usr room =
     (let room' = room\<lparr>music := (music room)\<lparr>
            hostUserKey := userKey usr,
            hostSocketId := Some s,
            hostName := name usr,
            hostDeviceId := None,
            hasHostSession := (case hostSession (music room) of
                                 None \<Rightarrow> False | Some ses \<Rightarrow> truthy (accessToken ses))\<rparr>\<rparr>
      in (room', [(To (Some rid), ROOM_STATE room')]))"

definition already_hosting :: "user \<Rightarrow> string" where
  "already_hosting currentHost =
     (if truthy (name currentHost) then the (name currentHost) else ''Current host'') @
     '' is already hosting Spotify.''"

definition claim_music_host :: "sid \<Rightarrow> string \<Rightarrow> room \<Rightarrow> room \<times> emit list" where
  "claim_music_host s rid room =
     (case by_socket s room of
        None \<Rightarrow> (room, [])
      | Some usr \<Rightarrow>
          let currentHostKey = hostUserKey (music room) in
          if truthy currentHostKey \<and> currentHostKey \<noteq> userKey usr then
            (case find (\<lambda>u. userKey u = currentHostKey) (users room) of
               None \<Rightarrow> claim_grant s rid usr room
             | Some currentHost \<Rightarrow>
                 if truthy (socketId currentHost)
                 then (room, [(Self s, MUSIC_ERROR (already_hosting currentHost))])
                 else claim_grant s rid usr room)
          else claim_grant s rid usr room)"

definition release_music_host :: "sid \<Rightarrow> string \<Rightarrow> room \<Rightarrow> room \<times> emit list" where
  "release_music_host s rid room =
     (case by_socket s room of
        None \<Rightarrow> (room, [])
      | Some usr \<Rightarrow>
          if hostUserKey (music room) \<noteq> userKey usr then (room, [])
          else
            let room' = room\<lparr>music := (music room)\<lparr>
                  hostUserKey := None,
                  hostSocketId := None,
                  hostName := None,
                  hostDeviceId := None,
                  hasHostSession := False,
                  clientId := None,
                  hostSession := None\<rparr>\<rparr>
            in (room', [(To (Some rid), ROOM_STATE room')]))"

definition music_suggest_track ::
  "env \<Rightarrow> sid \<Rightarrow> string \<Rightarrow> track_in option \<Rightarrow> room \<Rightarrow> room \<times> emit list" where
  "music_suggest_track e s rid t room =
     (case by_socket s room of
        None \<Rightarrow> (room, [])
      | Some usr \<Rightarrow>
          (case normalizeTrackCandidate t of
             None \<Rightarrow> (room, [])
           | Some n \<Rightarrow>
               let sg = \<lparr> track_id = track_id n, uri = uri n, track_name = track_name n,
                          artists = artists n, albumImage = albumImage n,
                          suggestionId = makeId e ''sg'',
                          suggestedByUserKey = userKey usr,
                          suggestedByName = name usr,
                          createdAt = now e \<rparr>;
                   pushed = suggestions (music room) @ [sg];
                   room' = room\<lparr>music := (music room)\<lparr>suggestions :=
                     (if length pushed > MAX_MUSIC_SUGGESTIONS
                      then slice_last MAX_MUSIC_SUGGESTIONS pushed else pushed)\<rparr>\<rparr>
               in (room', [(To (Some rid), ROOM_STATE room')])))"

text \<open>\<open>splice(idx, 1)\<close> at the index that \<open>findIndex\<close> returned.\<close>

fun remove_first :: "('a \<Rightarrow> bool) \<Rightarrow> 'a list \<Rightarrow> 'a list" where
  "remove_first P [] = []"
| "remove_first P (x # xs) = (if P x then xs else x # remove_first P xs)"

text \<open>\<open>queue.push(q)\<close> followed by the cut to the last \<open>MAX_MUSIC_QUEUE\<close> entries.\<close>

definition push_queue :: "queue_entry \<Rightarrow> music \<Rightarrow> music" where
  "push_queue q m =
     (let pushed = queue m @ [q] in
      m\<lparr>queue := (if length pushed > MAX_MUSIC_QUEUE
                   then slice_last MAX_MUSIC_QUEUE pushed else pushed)\<rparr>)"

definition music_accept_suggestion ::
  "env \<Rightarrow> sid \<Rightarrow> string \<Rightarrow> string \<Rightarrow> room \<Rightarrow> room \<times> emit list" where
  "music_accept_suggestion e s rid sgid room =
     (case by_socket s room of
        None \<Rightarrow> (room, [])
      | Some usr \<Rightarrow>
          if hostUserKey (music room) \<noteq> userKey usr then (room, [])
          else
            (case find (\<lambda>x. suggestionId x = sgid) (suggestions (music room)) of
               None \<Rightarrow> (room, [])
             | Some sg \<Rightarrow>
                 let m1 = (music room)\<lparr>suggestions :=
                            remove_first (\<lambda>x. suggestionId x = sgid) (suggestions (music room))\<rparr>;
                     q = \<lparr> track_id = track_id sg, uri = uri sg, track_name = track_name sg,
                           artists = artists sg, albumImage = albumImage sg,
                           queueId = makeId e ''q'',
                           queuedByUserKey = suggestedByUserKey sg,
                           queuedByName = suggestedByName sg,
                           acceptedByUserKey = userKey usr,
                           acceptedAt = now e \<rparr>;
                     room' = room\<lparr>music := push_queue q m1\<rparr>
                 in (room', [(To (Some rid), ROOM_STATE room')])))"

definition music_reject_suggestion :: "sid \<Rightarrow> string \<Rightarrow> string \<Rightarrow> room \<Rightarrow> room \<times> emit list" where
  "music_reject_suggestion s rid sgid room =
     (case by_socket s room of
        None \<Rightarrow> (room, [])
      | Some usr \<Rightarrow>
          if hostUserKey (music room) \<noteq> userKey usr then (room, [])
          else
            let room' = room\<lparr>music := (music room)\<lparr>suggestions :=
                  filter (\<lambda>x. suggestionId x \<noteq> sgid) (suggestions (music room))\<rparr>\<rparr>
            in (room', [(To (Some rid), ROOM_STATE room')]))"

definition music_add_to_queue ::
  "env \<Rightarrow> sid \<Rightarrow> string \<Rightarrow> track_in option \<Rightarrow> room \<Rightarrow> room \<times> emit list" where
  "music_add_to_queue e s rid t room =
     (case by_socket s room of
        None \<Rightarrow> (room, [])
      | Some usr \<Rightarrow>
          if hostUserKey (music room) \<noteq> userKey usr then (room, [])
          else
            (case normalizeTrackCandidate t of
               None \<Rightarrow> (room, [])
             | Some n \<Rightarrow>
                 let q = \<lparr> track_id = track_id n, uri = uri n, track_name = track_name n,
                           artists = artists n, albumImage = albumImage n,
                           queueId = makeId e ''q'',
                           queuedByUserKey = userKey usr,
                           queuedByName = name usr,
                           acceptedByUserKey = userKey usr,
                           acceptedAt = now e \<rparr>;
                     room' = room\<lparr>music := push_queue q (music room)\<rparr>
                 in (room', [(To (Some rid), ROOM_STATE room')])))"

text \<open>\<open>!!session?.accessToken\<close>.\<close>

definition has_token :: "session option \<Rightarrow> bool" where
  "has_token ses = (case ses of None \<Rightarrow> False | Some x \<Rightarrow> truthy (accessToken x))"

definition spotify_host_session_update ::
  "sid \<Rightarrow> string \<Rightarrow> string \<Rightarrow> session option \<Rightarrow> room \<Rightarrow> room \<times> emit list" where
  "spotify_host_session_update s rid clientId' ses room =
     (case by_socket s room of
        None \<Rightarrow> (room, [])
      | Some usr \<Rightarrow>
          if hostUserKey (music room) \<noteq> userKey usr then (room, [])
          else
            let m1 = (music room)\<lparr>hostSocketId := Some s\<rparr> in
            if \<not> has_token ses then
              let room' = room\<lparr>music := m1\<lparr>
                    clientId := Some (if clientId' \<noteq> [] then clientId'
                                      else if truthy (clientId m1) then the (clientId m1)
                                      else []),
                    hostSession := None,
                    hasHostSession := False,
                    hostDeviceId := None\<rparr>\<rparr>
              in (room', [(To (Some rid), ROOM_STATE room')])
            else
              let room' = room\<lparr>music := m1\<lparr>
                    clientId := Some clientId',
                    hostSession := Some \<lparr> accessToken = accessToken (the ses),
                                          refreshToken = refreshToken (the ses),
                                          expiresAt = expiresAt (the ses) \<rparr>,
                    hasHostSession := True\<rparr>\<rparr>
              in (room', [(To (Some rid), ROOM_STATE room')]))"

definition spotify_host_device_update ::
  "sid \<Rightarrow> string \<Rightarrow> string \<Rightarrow> room \<Rightarrow> room \<times> emit list" where
  "spotify_host_device_update s rid deviceId' room =
     (case by_socket s room of
        None \<Rightarrow> (room, [])
      | Some usr \<Rightarrow>
          if hostUserKey (music room) \<noteq> userKey usr then (room, [])
          else
            let room' = room\<lparr>music := (music room)\<lparr>
                  hostSocketId := Some s,
                  hostDeviceId := or_null (Some deviceId')\<rparr>\<rparr>
            in (room', [(To (Some rid), ROOM_STATE room')]))"

subsection \<open>Calls to the music provider\<close>

text \<open>
  Each awaited \<open>fetch\<close> takes the next answer of the environment; when none is left the
  call rejects. A thrown error is \<open>Inl\<close> with its message. The request itself (path,
  method, body) has no effect on the room and is not modelled; the handler runs to its end
  with the answers given, with no other event in between.
\<close>

fun next_fetch :: "http_result list \<Rightarrow> http_result \<times> http_result list" where
  "next_fetch [] = (Rejected ''fetch failed'', [])"
| "next_fetch (x # xs) = (x, xs)"

definition res_ok :: "nat \<Rightarrow> bool" where
  "res_ok st = (200 \<le> st \<and> st \<le> 299)"

definition refreshSpotifySession ::
  "int \<Rightarrow> http_result list \<Rightarrow> string option \<Rightarrow> string option
     \<Rightarrow> (string + session option) \<times> http_result list" where
  "refreshSpotifySession t ora cid rt =
     (if \<not> truthy cid \<or> \<not> truthy rt then (Inr None, ora)
      else case next_fetch ora of
        (Rejected msg, ora') \<Rightarrow> (Inl msg, ora')
      | (Response st b, ora') \<Rightarrow>
          if \<not> res_ok st then (Inl ''Spotify refresh failed.'', ora')
          else (case b of
                  Inl msg \<Rightarrow> (Inl msg, ora')
                | Inr d \<Rightarrow>
                    (Inr (Some \<lparr> accessToken = access_token d,
                                 refreshToken = (if truthy (refresh_token d)
                                                 then refresh_token d else rt),
                                 expiresAt = t + expires_in d * 1000 \<rparr>), ora')))"

definition ensureRoomSpotifySession ::
  "int \<Rightarrow> http_result list \<Rightarrow> room \<Rightarrow> (string + session option) \<times> room \<times> http_result list" where
  "ensureRoomSpotifySession t ora room =
     (case hostSession (music room) of
        None \<Rightarrow> (Inr None, room, ora)
      | Some ses \<Rightarrow>
          if \<not> truthy (accessToken ses) then (Inr None, room, ora)
          else if t \<le> expiresAt ses - 30000 then (Inr (Some ses), room, ora)
          else (case refreshSpotifySession t ora (clientId (music room)) (refreshToken ses) of
                  (Inl msg, ora') \<Rightarrow> (Inl msg, room, ora')
                | (Inr None, ora') \<Rightarrow> (Inr None, room, ora')
                | (Inr (Some nxt), ora') \<Rightarrow>
                    (Inr (Some nxt),
                     room\<lparr>music := (music room)\<lparr>hostSession := Some nxt\<rparr>\<rparr>, ora')))"

definition spotifyHostFetch ::
  "int \<Rightarrow> http_result list \<Rightarrow> room \<Rightarrow> (string + body option) \<times> room \<times> http_result list" where
  "spotifyHostFetch t ora room =
     (case ensureRoomSpotifySession t ora room of
        (Inl msg, room1, ora1) \<Rightarrow> (Inl msg, room1, ora1)
      | (Inr ses, room1, ora1) \<Rightarrow>
          if \<not> has_token ses then (Inl ''Host Spotify session is missing.'', room1, ora1)
          else (case next_fetch ora1 of
                  (Rejected msg, ora2) \<Rightarrow> (Inl msg, room1, ora2)
                | (Response st b, ora2) \<Rightarrow>
                    if st = 204 then (Inr None, room1, ora2)
                    else if \<not> res_ok st
                      then (Inl (''Spotify API failed ('' @ show_nat st @ '').''), room1, ora2)
                    else (case b of
                            Inl msg \<Rightarrow> (Inl msg, room1, ora2)
                          | Inr d \<Rightarrow> (Inr (Some d), room1, ora2))))"

text \<open>The \<open>catch\<close> clause of the control request.\<close>

definition control_failed :: "string \<Rightarrow> emit list" where
  "control_failed msg =
     [(Callback, RESPONSE (ReplyFail (if msg \<noteq> [] then msg else ''Music control failed.'')))]"

definition done_with :: "reply \<Rightarrow> emit list" where
  "done_with r = [(Callback, RESPONSE r)]"

text \<open>
  An awaited provider call inside the \<open>try\<close> block: when the call throws, the
  \<open>catch\<close> clause answers the request with the failure and the handler ends; otherwise
  the handler goes on with the data, the room and the answers that are left.
\<close>

definition await_fetch ::
  "env \<Rightarrow> http_result list \<Rightarrow> room
     \<Rightarrow> (body option \<Rightarrow> room \<Rightarrow> http_result list \<Rightarrow> room \<times> emit list) \<Rightarrow> room \<times> emit list" where
  "await_fetch e ora room k =
     (case spotifyHostFetch (now e) ora room of
        (Inl msg, room1, _) \<Rightarrow> (room1, control_failed msg)
      | (Inr d, room1, ora1) \<Rightarrow> k d room1 ora1)"

definition play_queued_next :: "env \<Rightarrow> string \<Rightarrow> user \<Rightarrow> room \<Rightarrow> room \<times> emit list" where
  "play_queued_next e rid usr room =
     (if userKey usr \<noteq> hostUserKey (music room)
        then (room, done_with (ReplyFail ''Only host can play from queue.''))
      else case queue (music room) of
        [] \<Rightarrow> (room, done_with (ReplyFail ''Queue is empty.''))
      | nxt # rest \<Rightarrow>
          let room1 = room\<lparr>music := (music room)\<lparr>queue := rest\<rparr>\<rparr> in
          await_fetch e (http e) room1 (\<lambda>_ room2 _.
            (room2, [(To (Some rid), ROOM_STATE room2)] @ done_with (ReplyQueued nxt))))"

definition control_action :: "env \<Rightarrow> string \<Rightarrow> user \<Rightarrow> action \<Rightarrow> room \<Rightarrow> room \<times> emit list" where
  "control_action e rid usr act room =
     (case act of
        CURRENT_TRACK \<Rightarrow>
          await_fetch e (http e) room (\<lambda>d room1 _.
            case d of
              None \<Rightarrow> (room1, done_with ReplyNull)
            | Some b \<Rightarrow>
                if \<not> truthy (item b) then (room1, done_with ReplyNull)
                else (room1, done_with (ReplyTrack (the (item b)))))
      | SEARCH q \<Rightarrow>
          if trim q = [] then (room, done_with (ReplySearch []))
          else
            await_fetch e (http e) room (\<lambda>d room1 _.
              (room1, done_with (ReplySearch (case d of None \<Rightarrow> [] | Some b \<Rightarrow> tracks b))))
      | PLAY_URI u \<Rightarrow>
          if u = [] then (room, done_with (ReplyFail ''Track URI is required.''))
          else await_fetch e (http e) room (\<lambda>_ room1 _. (room1, done_with ReplyOk))
      | PLAY_QUEUED_NEXT \<Rightarrow> play_queued_next e rid usr room
      | TOGGLE_PLAY_PAUSE \<Rightarrow>
          await_fetch e (http e) room (\<lambda>_ room1 ora1.
            await_fetch e ora1 room1 (\<lambda>_ room2 _. (room2, done_with ReplyOk)))
      | NEXT \<Rightarrow> await_fetch e (http e) room (\<lambda>_ room1 _. (room1, done_with ReplyOk))
      | PREV \<Rightarrow> await_fetch e (http e) room (\<lambda>_ room1 _. (room1, done_with ReplyOk))
      | OTHER_ACTION _ \<Rightarrow> (room, done_with (ReplyFail ''Unsupported action.'')))"

definition music_control_request ::
  "env \<Rightarrow> sid \<Rightarrow> string \<Rightarrow> action \<Rightarrow> room \<Rightarrow> room \<times> emit list" where
  "music_control_request e s rid act room =
     (case by_socket s room of
        None \<Rightarrow> (room, done_with (ReplyFail ''User not found.''))
      | Some usr \<Rightarrow>
          if \<not> truthy (hostUserKey (music room)) \<or> \<not> hasHostSession (music room)
            then (room, done_with (ReplyFail ''Spotify host is not ready.''))
          else control_action e rid usr act room)"

subsection \<open>Wheel and lobby notes\<close>

definition set_wheel_options ::
  "env \<Rightarrow> sid \<Rightarrow> string \<Rightarrow> ustring list option \<Rightarrow> room \<Rightarrow> room \<times> emit list" where
  "set_wheel_options e s rid options room =
     (case by_socket s room of
        None \<Rightarrow> (room, [])
      | Some usr \<Rightarrow>
          let nextOptions = normalizeWheelOptions e options in
          if nextOptions = [] then (room, [])
          else
            let room' = room\<lparr>game := (game room)\<lparr>wheelOptions := nextOptions\<rparr>\<rparr>
            in (room', [(To (Some rid), ROOM_STATE room')]))"

definition add_lobby_note :: "env \<Rightarrow> sid \<Rightarrow> string \<Rightarrow> ustring \<Rightarrow> room \<Rightarrow> room \<times> emit list" where
  "add_lobby_note e s rid txt room =
     (case by_socket s room of
        None \<Rightarrow> (room, [])
      | Some usr \<Rightarrow>
          let content = normalizeLobbyNote txt in
          if content = [] then (room, [])
          else
            let n = \<lparr> note_id = show_int (now e) @ ''-'' @ rand36 e,
                      note_userKey = userKey usr,
                      note_name = name usr,
                      note_color = color usr,
                      note_text = content,
                      note_createdAt = now e \<rparr>;
                pushed = lobbyNotes room @ [n];
                room' = room\<lparr>lobbyNotes :=
                  (if length pushed > MAX_LOBBY_NOTES
                   then slice_last MAX_LOBBY_NOTES pushed else pushed)\<rparr>
            in (room', [(To (Some rid), ROOM_STATE room')]))"

definition delete_lobby_note :: "sid \<Rightarrow> string \<Rightarrow> string \<Rightarrow> room \<Rightarrow> room \<times> emit list" where
  "delete_lobby_note s rid noteId room =
     (case by_socket s room of
        None \<Rightarrow> (room, [])
      | Some usr \<Rightarrow>
          let room' = room\<lparr>lobbyNotes :=
                filter (\<lambda>n. \<not> (note_id n = noteId \<and> note_userKey n = userKey usr))
                  (lobbyNotes room)\<rparr>
          in (room', [(To (Some rid), ROOM_STATE room')]))"

definition spin_wheel :: "env \<Rightarrow> sid \<Rightarrow> string \<Rightarrow> room \<Rightarrow> room \<times> emit list" where
  "spin_wheel e s rid room =
     (case by_socket s room of
        None \<Rightarrow> (room, [])
      | Some spinner \<Rightarrow>
          if currentGame spinner \<noteq> ''WHEEL'' then (room, [])
          else
            let room1 = syncWheelTurn room;
                options = normalizeWheelOptions e (Some (wheelOptions (game room1)))
            in
            if options = [] then (room1, [])
            else
              let room2 = room1\<lparr>game := (game room1)\<lparr>wheelOptions := options\<rparr>\<rparr>;
                  winnerIndex = random e mod length options;
                  prompt = options ! winnerIndex;
                  turn =
                    (if length (wheelUsers room2) \<ge> 2 then
                       (case find (\<lambda>u. userKey u \<noteq> userKey spinner) (wheelUsers room2) of
                          None \<Rightarrow> userKey spinner
                        | Some nextSpinner \<Rightarrow>
                            if truthy (userKey nextSpinner) then userKey nextSpinner
                            else userKey spinner)
                     else userKey spinner);
                  room3 = room2\<lparr>game := (game room2)\<lparr>wheelTurnUserKey := turn\<rparr>\<rparr>
              in (room3,
                  [(To (Some rid), WHEEL_RESULT prompt winnerIndex (userKey spinner)),
                   (To (Some rid), ROOM_STATE room3)]))"

subsection \<open>Disconnection\<close>

definition disconnect_room :: "sid \<Rightarrow> room \<Rightarrow> room \<times> emit list" where
  "disconnect_room s room =
     (case by_socket s room of
        None \<Rightarrow> (room, [])
      | Some usr \<Rightarrow>
          let g1 = (game room)\<lparr>
                drawerId := (if drawerId (game room) = Some s then None
                             else drawerId (game room)),
                guesserId := (if guesserId (game room) = Some s then None
                              else guesserId (game room))\<rparr>;
              us = upd_first (\<lambda>u. socketId u = Some s) (\<lambda>u. u\<lparr>socketId := None\<rparr>) (users room);
              m1 = (if hostUserKey (music room) = userKey usr then
                      (music room)\<lparr>
                        hostSocketId := None,
                        hostDeviceId := None,
                        hasHostSession := False,
                        clientId := None,
                        hostSession := None\<rparr>
                    else music room);
              room1 = syncWheelTurn (syncStatuses (room\<lparr>game := g1, users := us, music := m1\<rparr>))
          in (room1, [(To (Some (roomId room1)), ROOM_STATE room1)]))"

text \<open>
  The loop over \<open>Object.values(rooms)\<close>. The rooms are taken in the order of the
  table; the engine takes identifiers that are array indices first, which changes only the
  order of the messages of the different rooms.
\<close>

definition disconnect :: "sid \<Rightarrow> rooms \<Rightarrow> rooms \<times> emit list" where
  "disconnect s rs =
     (map (\<lambda>(rid, room). (rid, fst (disconnect_room s room))) rs,
      concat (map (\<lambda>(rid, room). snd (disconnect_room s room)) rs))"

section \<open>The server as a transition function\<close>

text \<open>
  A handler that starts with \<open>const room = rooms[roomId]; if (!room) return;\<close> and
  then works on that room.
\<close>

definition on_room :: "rooms \<Rightarrow> string \<Rightarrow> (room \<Rightarrow> room \<times> emit list) \<Rightarrow> rooms \<times> emit list" where
  "on_room rs rid h =
     (case map_of rs rid of
        None \<Rightarrow> (rs, [])
      | Some room \<Rightarrow> (let (room', out) = h room in (AList.update rid room' rs, out)))"

fun step :: "env \<Rightarrow> sid \<Rightarrow> event \<Rightarrow> rooms \<Rightarrow> rooms \<times> emit list" where
  "step e s (CREATE_ROOM rid pin' name' color' userKey') rs =
     create_room s rid pin' name' color' userKey' rs"
| "step e s (JOIN_ROOM rid pin' name' color' userKey') rs =
     join_room e s rid pin' name' color' userKey' rs"
| "step e s (DRAW rid st) rs = on_room rs rid (draw s rid st)"
| "step e s (CLEAR_CANVAS_REQUEST rid) rs = on_room rs rid (clear_canvas_request s rid)"
| "step e s (GUESS rid g) rs = on_room rs rid (guess e s rid g)"
| "step e s (SKIP_ROUND rid) rs = on_room rs rid (skip_round e s rid)"
| "step e s (RESTART_GAME rid) rs = on_room rs rid (restart_game e s rid)"
| "step e s (SET_ACTIVE_GAME rid g) rs = on_room rs rid (set_active_game s rid g)"
| "step e s (CLAIM_MUSIC_HOST rid) rs = on_room rs rid (claim_music_host s rid)"
| "step e s (RELEASE_MUSIC_HOST rid) rs = on_room rs rid (release_music_host s rid)"
| "step e s (MUSIC_SUGGEST_TRACK rid t) rs = on_room rs rid (music_suggest_track e s rid t)"
| "step e s (MUSIC_ACCEPT_SUGGESTION rid sg) rs =
     on_room rs rid (music_accept_suggestion e s rid sg)"
| "step e s (MUSIC_REJECT_SUGGESTION rid sg) rs =
     on_room rs rid (music_reject_suggestion s rid sg)"
| "step e s (MUSIC_ADD_TO_QUEUE rid t) rs = on_room rs rid (music_add_to_queue e s rid t)"
| "step e s (SPOTIFY_HOST_SESSION_UPDATE rid cid ses) rs =
     on_room rs rid (spotify_host_session_update s rid cid ses)"
| "step e s (SPOTIFY_HOST_DEVICE_UPDATE rid dev) rs =
     on_room rs rid (spotify_host_device_update s rid dev)"
| "step e s (MUSIC_CONTROL_REQUEST rid act) rs =
     (case map_of rs rid of
        None \<Rightarrow> (rs, done_with (ReplyFail ''Room not found.''))
      | Some _ \<Rightarrow> on_room rs rid (music_control_request e s rid act))"
| "step e s (SET_WHEEL_OPTIONS rid opts) rs = on_room rs rid (set_wheel_options e s rid opts)"
| "step e s (ADD_LOBBY_NOTE rid txt) rs = on_room rs rid (add_lobby_note e s rid txt)"
| "step e s (DELETE_LOBBY_NOTE rid nid) rs = on_room rs rid (delete_lobby_note s rid nid)"
| "step e s (SPIN_WHEEL rid) rs = on_room rs rid (spin_wheel e s rid)"
| "step e s DISCONNECT rs = disconnect s rs"

text \<open>
  A run of the server from a registry: the events in the order in which they are handled,
  each with its environment and the socket that sent it.
\<close>

fun exec :: "(env \<times> sid \<times> event) list \<Rightarrow> rooms \<Rightarrow> rooms \<times> emit list" where
  "exec [] rs = (rs, [])"
| "exec ((e, s, ev) # tr) rs =
     (let (rs1, o1) = step e s ev rs;
          (rs2, o2) = exec tr rs1
      in (rs2, o1 @ o2))"

section \<open>Properties of rooms and runs\<close>

text \<open>The keys of the registered members of a room, in join order.\<close>

definition keys :: "room \<Rightarrow> string option list" where
  "keys room = map userKey (users room)"

text \<open>
  A role key that is set is the key of a registered member, and a room with a role key has
  two registered members.
\<close>

definition room_inv :: "room \<Rightarrow> bool" where
  "room_inv room =
     (let d = drawerUserKey (game room); g = guesserUserKey (game room) in
      (d \<noteq> None \<longrightarrow> d \<in> set (keys room)) \<and>
      (g \<noteq> None \<longrightarrow> g \<in> set (keys room)) \<and>
      (d \<noteq> None \<or> g \<noteq> None \<longrightarrow> 2 \<le> length (keys room)))"

text \<open>The room snapshots among the emitted messages, in order.\<close>

definition snapshots :: "emit list \<Rightarrow> room list" where
  "snapshots out = concat (map (\<lambda>(t, m). case m of ROOM_STATE r \<Rightarrow> [r] | _ \<Rightarrow> []) out)"

text \<open>
  The result of a room handler is good when the room it leaves satisfies the invariant and
  every snapshot it emits is that room.
\<close>

definition good :: "room \<times> emit list \<Rightarrow> bool" where
  "good p = (room_inv (fst p) \<and> (\<forall>x \<in> set (snapshots (snd p)). x = fst p))"

definition rooms_inv :: "rooms \<Rightarrow> bool" where
  "rooms_inv rs = (\<forall>(rid, r) \<in> set rs. room_inv r)"

definition step_ok :: "rooms \<times> emit list \<Rightarrow> bool" where
  "step_ok p = (rooms_inv (fst p) \<and> (\<forall>x \<in> set (snapshots (snd p)). room_inv x))"

subsection \<open>Concrete runs\<close>

text \<open>
  The concrete runs use ASCII texts only. On such texts \<open>toLowerCase\<close> maps the code units
  of \<open>A\<close> to \<open>Z\<close> to those of \<open>a\<close> to \<open>z\<close> and keeps every other code unit.
\<close>

definition lower_ascii :: "ustring \<Rightarrow> ustring" where
  "lower_ascii s = map (\<lambda>c. if 65 \<le> c \<and> c \<le> 90 then c + 32 else c) s"

text \<open>
  Two clients, Ann on socket \<open>s1\<close> and Bob on socket \<open>s2\<close>, in room \<open>R1\<close>; the word
  list holds the single word \<open>cat\<close>.
\<close>

definition env0 :: env where
  "env0 = \<lparr> words = [utf16 ''cat''], toLowerCase = lower_ascii, random = 0, now = 1000,
             rand36 = ''k3x9qz'', http = [] \<rparr>"

definition join_a :: "env \<times> sid \<times> event" where
  "join_a = (env0, ''s1'', JOIN_ROOM ''R1'' ''1234'' (Some ''Ann'') (Some ''red'') (Some ''a''))"

definition join_b :: "env \<times> sid \<times> event" where
  "join_b = (env0, ''s2'', JOIN_ROOM ''R1'' ''1234'' (Some ''Bob'') (Some ''blue'') (Some ''b''))"

definition says :: "sid \<Rightarrow> string \<Rightarrow> env \<times> sid \<times> event" where
  "says s g = (env0, s, GUESS ''R1'' (utf16 g))"

definition room_after :: "(env \<times> sid \<times> event) list \<Rightarrow> room option" where
  "room_after tr = map_of (fst (exec tr [])) ''R1''"

definition scores :: "room \<Rightarrow> (string option \<times> nat) list" where
  "scores room = map (\<lambda>u. (userKey u, points u)) (users room)"

definition two_joined :: room where
  "two_joined = the (room_after [join_a, join_b])"

text \<open>The round state of a room: the two role keys, their sockets and the current word.\<close>

definition round_state ::
  "room \<Rightarrow> string option \<times> string option \<times> string option \<times> string option \<times> ustring option" where
  "round_state room =
     (drawerUserKey (game room), guesserUserKey (game room), drawerId (game room),
      guesserId (game room), currentWord (game room))"

text \<open>
  Ann is in the room. A browser that has never opened the home page opens the room link:
  its storage holds no key, no name and no colour, and the room page sends the three
  values as they are, that is \<open>null\<close>.
\<close>

definition c1_fresh_browser :: "(env \<times> sid \<times> event) list" where
  "c1_fresh_browser = [join_a, (env0, ''s2'', JOIN_ROOM ''R1'' ''1234'' None None None)]"

definition c1_snapshot :: room where
  "c1_snapshot = last (snapshots (snd (exec c1_fresh_browser [])))"

text \<open>
  Ann and Bob guess the word in turn, nine times: Bob is the guesser in the odd rounds and
  reaches five points with the ninth guess.
\<close>

definition c2_until_cap :: "(env \<times> sid \<times> event) list" where
  "c2_until_cap = [join_a, join_b,
     says ''s2'' ''cat'', says ''s1'' ''cat'', says ''s2'' ''cat'', says ''s1'' ''cat'',
     says ''s2'' ''cat'', says ''s1'' ''cat'', says ''s2'' ''cat'', says ''s1'' ''cat'',
     says ''s2'' ''cat'']"

text \<open>
  Then Ann reloads the page: her socket disconnects and her client joins again on a new
  socket. After that Bob guesses the word.
\<close>

definition c2_reload :: "(env \<times> sid \<times> event) list" where
  "c2_reload = [(env0, ''s1'', DISCONNECT),
                (env0, ''s4'', JOIN_ROOM ''R1'' ''1234'' (Some ''Ann'') (Some ''red'') (Some ''a''))]"

definition c2_resumed :: "(env \<times> sid \<times> event) list" where
  "c2_resumed = c2_until_cap @ c2_reload @ [says ''s2'' ''cat'']"

text \<open>
  Bob guesses wrong three times and loses his connection; Ann restarts the game alone;
  Bob comes back on a new socket.
\<close>

definition c3_rejoined :: "(env \<times> sid \<times> event) list" where
  "c3_rejoined = [join_a, join_b,
     says ''s2'' ''dog'', says ''s2'' ''dog'', says ''s2'' ''dog'',
     (env0, ''s2'', DISCONNECT),
     (env0, ''s1'', RESTART_GAME ''R1''),
     (env0, ''s3'', JOIN_ROOM ''R1'' ''1234'' (Some ''Bob'') (Some ''blue'') (Some ''b''))]"

text \<open>
  A guess is judged correct when the handler announces a scored round or a winner.
\<close>

definition judged_correct :: "emit list \<Rightarrow> bool" where
  "judged_correct out =
     list_ex (\<lambda>(t, m). case m of ROUND_RESULT _ _ _ _ \<Rightarrow> True
                          | GAME_WINNER _ _ _ _ \<Rightarrow> True | _ \<Rightarrow> False) out"

text \<open>
  The code units that \<open>trim\<close> removes: the white space and the line terminators of
  ECMAScript. Some code units that look like white space and are not: the next line
  control (133), the Mongolian vowel separator (6158), the zero width space (8203) and
  the word joiner (8288).
\<close>

definition white_space :: "int list" where
  "white_space = [9, 10, 11, 12, 13, 32, 160, 5760, 8192, 8193, 8194, 8195, 8196, 8197, 8198,
                  8199, 8200, 8201, 8202, 8232, 8233, 8239, 8287, 12288, 65279]"

definition not_white_space :: "int list" where
  "not_white_space = [0, 8, 14, 28, 31, 33, 133, 6158, 8203, 8204, 8205, 8288]"

text \<open>A guess with white space of several kinds around the word.\<close>

definition c4_guess :: ustring where
  "c4_guess = [160, 32] @ utf16 ''CAT'' @ [9, 8232]"

text \<open>Ann and Bob both open the wheel tab, Ann first: the turn is Ann's.\<close>

definition c5_both_on_wheel :: "(env \<times> sid \<times> event) list" where
  "c5_both_on_wheel = [join_a, join_b,
     (env0, ''s1'', SET_ACTIVE_GAME ''R1'' ''WHEEL''),
     (env0, ''s2'', SET_ACTIVE_GAME ''R1'' ''WHEEL'')]"

definition c5_room :: room where
  "c5_room = the (room_after c5_both_on_wheel)"

text \<open>
  Ann becomes the music host, pushes a session that is valid for a long time and queues
  one track; then the provider answers her request to play the queue head with status 500.
\<close>

definition c6_track :: track_in where
  "c6_track = \<lparr> in_id = utf16 ''t1'', in_uri = utf16 ''spotify:track:t1'',
                in_name = utf16 ''Song'', in_artists = utf16 ''Band'', in_albumImage = [] \<rparr>"

definition c6_session :: session where
  "c6_session = \<lparr> accessToken = Some ''token'', refreshToken = Some ''refresh'',
                  expiresAt = 9000000 \<rparr>"

definition c6_queued :: "(env \<times> sid \<times> event) list" where
  "c6_queued = [join_a,
     (env0, ''s1'', CLAIM_MUSIC_HOST ''R1''),
     (env0, ''s1'', SPOTIFY_HOST_SESSION_UPDATE ''R1'' ''client'' (Some c6_session)),
     (env0, ''s1'', MUSIC_ADD_TO_QUEUE ''R1'' (Some c6_track))]"

definition c6_body :: body where
  "c6_body = \<lparr> access_token = None, refresh_token = None, expires_in = 0, item = None,
               is_playing = False, tracks = [] \<rparr>"

definition c6_play_fails :: "env \<times> sid \<times> event" where
  "c6_play_fails =
     (env0\<lparr>http := [Response 500 (Inr c6_body)]\<rparr>, ''s1'',
      MUSIC_CONTROL_REQUEST ''R1'' PLAY_QUEUED_NEXT)"

definition c6_play_succeeds :: "env \<times> sid \<times> event" where
  "c6_play_succeeds =
     (env0\<lparr>http := [Response 204 (Inr c6_body)]\<rparr>, ''s1'',
      MUSIC_CONTROL_REQUEST ''R1'' PLAY_QUEUED_NEXT)"

text \<open>The member whose key is the host key, and whether that member is connected.\<close>

definition current_host :: "room \<Rightarrow> user option" where
  "current_host room = find (\<lambda>u. userKey u = hostUserKey (music room)) (users room)"

definition host_connected :: "room \<Rightarrow> bool" where
  "host_connected room = (case current_host room of None \<Rightarrow> False | Some h \<Rightarrow> connected h)"

definition c7_hosted :: room where
  "c7_hosted = the (room_after [join_a, join_b, (env0, ''s1'', CLAIM_MUSIC_HOST ''R1'')])"

text \<open>
  The host fields of a room: key, name, socket, session, client id, device id and the
  ready flag.
\<close>

definition host_fields ::
  "room \<Rightarrow> string option \<times> string option \<times> string option \<times> session option \<times>
           string option \<times> string option \<times> bool" where
  "host_fields room =
     (hostUserKey (music room), hostName (music room), hostSocketId (music room),
      hostSession (music room), clientId (music room), hostDeviceId (music room),
      hasHostSession (music room))"

text \<open>What a member is apart from its connection and its status label.\<close>

definition members ::
  "room \<Rightarrow> (string option \<times> string option \<times> string option \<times> nat \<times> string) list" where
  "members room = map (\<lambda>u. (userKey u, name u, color u, points u, currentGame u)) (users room)"

text \<open>
  What the clearing of the host fields must not touch: the members, the lobby notes, the
  queue, the suggestions and the game.
\<close>

definition rest_of_room ::
  "room \<Rightarrow> (string option \<times> string option \<times> string option \<times> nat \<times> string) list \<times>
           lobby_note list \<times> queue_entry list \<times> suggestion list \<times> nat \<times> ustring option" where
  "rest_of_room room =
     (members room, lobbyNotes room, queue (music room), suggestions (music room),
      wrongGuessCount (game room), currentWord (game room))"

text \<open>
  Ann and Bob are in the room; Bob, on socket \<open>s2\<close>, hosts with a session and a device,
  has queued a track and left a note.
\<close>

definition c8_hosted :: "(env \<times> sid \<times> event) list" where
  "c8_hosted = [join_a, join_b, (env0, ''s2'', CLAIM_MUSIC_HOST ''R1''),
     (env0, ''s2'', SPOTIFY_HOST_SESSION_UPDATE ''R1'' ''client'' (Some c6_session)),
     (env0, ''s2'', SPOTIFY_HOST_DEVICE_UPDATE ''R1'' ''device-1''),
     (env0, ''s2'', MUSIC_ADD_TO_QUEUE ''R1'' (Some c6_track)),
     (env0, ''s2'', ADD_LOBBY_NOTE ''R1'' (utf16 ''hello''))]"

text \<open>
  Then Bob's socket sends a join with Ann's key: the join handler binds Ann to the socket
  \<open>s2\<close> as well, and Ann is the first member of the room.
\<close>

definition c8_shared :: "(env \<times> sid \<times> event) list" where
  "c8_shared = c8_hosted @
     [(env0, ''s2'', JOIN_ROOM ''R1'' ''1234'' (Some ''Ann'') (Some ''red'') (Some ''a''))]"

text \<open>Ann and Bob play, and Bob's connection drops.\<close>

definition c9_left :: "(env \<times> sid \<times> event) list" where
  "c9_left = [join_a, join_b, (env0, ''s2'', DISCONNECT)]"

definition c9_snapshot :: room where
  "c9_snapshot = last (snapshots (snd (exec c9_left [])))"

definition c9_alone :: room where
  "c9_alone = the (room_after [join_a])"

definition c9_room :: room where
  "c9_room = the (room_after c9_left)"

section \<open>The invariant of the rooms\<close>

declare show_nat.simps [simp del]

lemma snapshots_simps [simp]:
  "snapshots [] = []"
  "snapshots ((t, ROOM_STATE r) # out) = r # snapshots out"
  "snapshots (a @ b) = snapshots a @ snapshots b"
  by (simp_all add: snapshots_def)

lemma snapshots_other [simp]:
  "snapshots ((t, ASSIGN_WORD w) # out) = snapshots out"
  "snapshots ((t, JOIN_ERROR x) # out) = snapshots out"
  "snapshots ((t, MUSIC_ERROR x) # out) = snapshots out"
  "snapshots ((t, CANVAS_STATE ss) # out) = snapshots out"
  "snapshots ((t, DRAW_RELAY st) # out) = snapshots out"
  "snapshots ((t, CLEAR_CANVAS) # out) = snapshots out"
  "snapshots ((t, WRONG_GUESS x) # out) = snapshots out"
  "snapshots ((t, ROUND_RESULT w k n c) # out) = snapshots out"
  "snapshots ((t, ROUND_SKIPPED w) # out) = snapshots out"
  "snapshots ((t, GAME_WINNER k nm n c) # out) = snapshots out"
  "snapshots ((t, GAME_RESTARTED) # out) = snapshots out"
  "snapshots ((t, WHEEL_RESULT pr i k) # out) = snapshots out"
  "snapshots ((t, RESPONSE rp) # out) = snapshots out"
  by (simp_all add: snapshots_def)

lemma snapshots_helpers [simp]:
  "snapshots (assign_word r) = []"
  "snapshots (done_with rp) = []"
  "snapshots (control_failed msg) = []"
  by (simp_all add: assign_word_def done_with_def control_failed_def)

lemma keys_upd_first:
  "(\<And>u. userKey (f u) = userKey u) \<Longrightarrow> map userKey (upd_first P f xs) = map userKey xs"
  by (induction xs) auto

lemma keys_update [simp]:
  "keys (r\<lparr>game := g\<rparr>) = keys r"
  "keys (r\<lparr>music := m\<rparr>) = keys r"
  "keys (r\<lparr>lobbyNotes := n\<rparr>) = keys r"
  "keys (r\<lparr>users := us\<rparr>) = map userKey us"
  by (simp_all add: keys_def)

lemma room_inv_cong:
  "keys r' = keys r \<Longrightarrow> drawerUserKey (game r') = drawerUserKey (game r) \<Longrightarrow>
   guesserUserKey (game r') = guesserUserKey (game r) \<Longrightarrow> room_inv r' = room_inv r"
  by (simp add: room_inv_def)

lemma keys_syncStatuses [simp]: "keys (syncStatuses r) = keys r"
  by (simp add: keys_def syncStatuses_def comp_def if_distrib)

lemma game_syncStatuses [simp]: "game (syncStatuses r) = game r"
  by (simp add: syncStatuses_def)

lemma keys_syncWheelTurn [simp]: "keys (syncWheelTurn r) = keys r"
  by (simp add: syncWheelTurn_def)

lemma syncWheelTurn_sel [simp]:
  "users (syncWheelTurn r) = users r"
  "music (syncWheelTurn r) = music r"
  "lobbyNotes (syncWheelTurn r) = lobbyNotes r"
  "roomId (syncWheelTurn r) = roomId r"
  "pin (syncWheelTurn r) = pin r"
  "drawerUserKey (game (syncWheelTurn r)) = drawerUserKey (game r)"
  "guesserUserKey (game (syncWheelTurn r)) = guesserUserKey (game r)"
  "drawerId (game (syncWheelTurn r)) = drawerId (game r)"
  "guesserId (game (syncWheelTurn r)) = guesserId (game r)"
  "currentWord (game (syncWheelTurn r)) = currentWord (game r)"
  "strokes (game (syncWheelTurn r)) = strokes (game r)"
  "winnerUserKey (game (syncWheelTurn r)) = winnerUserKey (game r)"
  "wrongGuessCount (game (syncWheelTurn r)) = wrongGuessCount (game r)"
  "wheelOptions (game (syncWheelTurn r)) = wheelOptions (game r)"
  by (simp_all add: syncWheelTurn_def)

lemma syncStatuses_sel [simp]:
  "music (syncStatuses r) = music r"
  "lobbyNotes (syncStatuses r) = lobbyNotes r"
  "roomId (syncStatuses r) = roomId r"
  "pin (syncStatuses r) = pin r"
  "length (users (syncStatuses r)) = length (users r)"
  by (simp_all add: syncStatuses_def)

lemma inv_syncWheelTurn [simp]: "room_inv (syncWheelTurn r) = room_inv r"
  by (rule room_inv_cong) simp_all

lemma inv_syncStatuses [simp]: "room_inv (syncStatuses r) = room_inv r"
  by (rule room_inv_cong) simp_all

lemma keys_rotateRoles [simp]: "keys (rotateRoles e r) = keys r"
  by (simp add: rotateRoles_def Let_def)

lemma inv_rotateRoles: "room_inv r \<Longrightarrow> room_inv (rotateRoles e r)"
  by (auto simp add: rotateRoles_def Let_def room_inv_def)

lemma first_two:
  "2 \<le> length ys \<Longrightarrow> ys ! 0 \<in> set ys \<and> ys ! 1 \<in> set ys"
  by (cases ys; cases "tl ys") auto

lemma first_two_filter:
  assumes "2 \<le> length (filter P xs)"
  shows "filter P xs ! 0 \<in> set xs \<and> filter P xs ! 1 \<in> set xs \<and> 2 \<le> length xs"
proof -
  have "length (filter P xs) \<le> length xs" by (rule length_filter_le)
  then have "2 \<le> length xs" using assms by linarith
  moreover have "filter P xs ! 0 \<in> set (filter P xs) \<and> filter P xs ! 1 \<in> set (filter P xs)"
    using assms by (rule first_two)
  ultimately show ?thesis by simp
qed

lemma key_mem: "x \<in> set (users r) \<Longrightarrow> userKey x \<in> set (keys r)"
  by (simp add: keys_def)

lemma inv_roles_set:
  assumes "a \<in> set (users r)" "b \<in> set (users r)" "2 \<le> length (users r)"
    and "drawerUserKey g = userKey a" "guesserUserKey g = userKey b"
  shows "room_inv (r\<lparr>game := g\<rparr>)"
  using assms key_mem[of a r] key_mem[of b r] by (simp add: room_inv_def Let_def keys_def)

lemma inv_roles_none:
  assumes "drawerUserKey g = None" "guesserUserKey g = None"
  shows "room_inv (r\<lparr>game := g\<rparr>)"
  using assms by (simp add: room_inv_def)

lemma keys_startRound [simp]: "keys (startRound e r) = keys r"
  by (simp add: startRound_def Let_def)

lemma inv_startRound: "room_inv (startRound e r)"
proof (cases "length (filter connected (users r)) < 2")
  case True
  then show ?thesis by (simp add: startRound_def Let_def inv_roles_none)
next
  case False
  then have 2: "2 \<le> length (filter connected (users r))" by simp
  note m = first_two_filter[OF 2, simplified]
  show ?thesis using False
    by (simp add: startRound_def Let_def)
       (rule inv_roles_set[where a = "filter connected (users r) ! 0"
                             and b = "filter connected (users r) ! 1"]; simp add: m)
qed

lemma good_same [simp]: "good (r, []) = room_inv r"
     "good (r, [(t, JOIN_ERROR x)]) = room_inv r"
     "good (r, [(t, MUSIC_ERROR x)]) = room_inv r"
     "good (r, done_with rp) = room_inv r"
     "good (r, control_failed msg) = room_inv r"
  by (simp_all add: good_def)

lemma room_inv_frame: "users r' = users r \<Longrightarrow> game r' = game r \<Longrightarrow> room_inv r' = room_inv r"
  by (simp add: room_inv_def keys_def)

lemma room_inv_update [simp]:
  "room_inv (r\<lparr>music := m\<rparr>) = room_inv r"
  "room_inv (r\<lparr>lobbyNotes := n\<rparr>) = room_inv r"
  by (rule room_inv_frame; simp)+

lemma room_inv_game:
  "drawerUserKey g = drawerUserKey (game r) \<Longrightarrow> guesserUserKey g = guesserUserKey (game r) \<Longrightarrow>
   room_inv (r\<lparr>game := g\<rparr>) = room_inv r"
  by (simp add: room_inv_def)

lemma room_inv_users:
  "map userKey us = keys r \<Longrightarrow> room_inv (r\<lparr>users := us\<rparr>) = room_inv r"
  by (simp add: room_inv_def)

lemma good_draw: "room_inv r \<Longrightarrow> good (draw s rid st r)"
  by (simp add: draw_def good_def room_inv_game)

lemma good_clear: "room_inv r \<Longrightarrow> good (clear_canvas_request s rid r)"
  by (simp add: clear_canvas_request_def good_def room_inv_game)

lemma good_guess_wrong: "room_inv r \<Longrightarrow> good (guess_wrong e s rid r)"
  by (simp add: guess_wrong_def Let_def good_def room_inv_game inv_rotateRoles)

lemma good_skip: "room_inv r \<Longrightarrow> good (skip_round e s rid r)"
  by (auto simp add: skip_round_def Let_def good_def inv_rotateRoles)

lemma inv_points:
  "room_inv (r\<lparr>users := upd_first P (\<lambda>u. u\<lparr>points := points u + 1\<rparr>) (users r)\<rparr>) = room_inv r"
  by (rule room_inv_users) (simp add: keys_upd_first keys_def)

lemma inv_win:
  "drawerUserKey g = None \<Longrightarrow> guesserUserKey g = None \<Longrightarrow> room_inv (r\<lparr>game := g, users := us\<rparr>)"
  by (simp add: room_inv_def)

lemma good_guess_right:
  assumes "room_inv r"
  shows "good (guess_right e rid r)"
proof (cases "find (\<lambda>u. userKey u = guesserUserKey (game r)) (users r)")
  case None
  then show ?thesis using assms by (simp add: guess_right_def)
next
  case (Some found)
  let ?r1 = "r\<lparr>users := upd_first (\<lambda>u. userKey u = guesserUserKey (game r))
               (\<lambda>u. u\<lparr>points := points u + 1\<rparr>) (users r)\<rparr>"
  have r1: "room_inv ?r1" using assms(1) by (simp only: inv_points)
  show ?thesis
  proof (cases "points found + 1 \<ge> MAX_SCORE")
    case True
    have "room_inv (?r1\<lparr>game := (game ?r1)\<lparr>
                    winnerUserKey := userKey found,
                    drawerId := None,
                    guesserId := None,
                    drawerUserKey := None,
                    guesserUserKey := None,
                    currentWord := None,
                    strokes := [],
                    wrongGuessCount := 0\<rparr>,
                  users := map (\<lambda>u. u\<lparr>status := label u ''WAITING''\<rparr>) (users ?r1)\<rparr>)"
      by (rule inv_win) simp_all
    then show ?thesis using Some True by (simp add: guess_right_def Let_def good_def)
  next
    case False
    have "room_inv (rotateRoles e ?r1)" using r1 by (rule inv_rotateRoles)
    then show ?thesis using Some False by (simp add: guess_right_def Let_def good_def)
  qed
qed

lemma good_guess: "room_inv r \<Longrightarrow> good (guess e s rid g r)"
  by (auto simp add: guess_def good_guess_wrong good_guess_right)

lemma good_restart: "room_inv r \<Longrightarrow> good (restart_game e s rid r)"
  by (cases "by_socket s r") (simp_all add: restart_game_def Let_def good_def inv_startRound)

lemma good_set_active: "room_inv r \<Longrightarrow> good (set_active_game s rid g r)"
  by (auto simp add: set_active_game_def Let_def good_def room_inv_users keys_upd_first keys_def
        split: option.splits)

lemma inv_join_start:
  assumes "room_inv r"
  shows "room_inv (fst (join_start e r))"
proof (cases "length (users r) = 2 \<and> \<not> truthy (drawerUserKey (game r))")
  case False
  then show ?thesis using assms by (auto simp add: join_start_def Let_def)
next
  case True
  then have 2: "2 \<le> length (users r)" by simp
  note m = first_two[OF 2, simplified]
  show ?thesis using True
    by (simp add: join_start_def Let_def)
       (rule inv_roles_set[where a = "users r ! 0" and b = "users r ! 1"]; simp add: m)
qed

lemma snapshots_join_start [simp]: "snapshots (snd (join_start e r)) = []"
  by (simp add: join_start_def Let_def)

lemma good_join_finish: "room_inv r \<Longrightarrow> good (join_finish e s rid k r)"
  using inv_join_start[of r e] snapshots_join_start[of e r]
  by (cases "join_start e r") (simp add: join_finish_def Let_def good_def)

lemma inv_rejoin: "room_inv (rejoin s usr r) = room_inv r"
  by (rule room_inv_cong) (simp_all add: rejoin_def keys_upd_first, simp add: keys_def)

lemma inv_push_user:
  assumes "room_inv r"
  shows "room_inv (r\<lparr>users := users r @ [new_user s n c k]\<rparr>)"
  using assms by (auto simp add: room_inv_def Let_def) (auto simp add: keys_def)

lemma good_join_existing: "room_inv r \<Longrightarrow> good (join_existing e s rid p n c k r)"
  by (auto simp add: join_existing_def good_join_finish inv_rejoin inv_push_user split: option.splits)

lemma good_claim: "room_inv r \<Longrightarrow> good (claim_music_host s rid r)"
  by (auto simp add: claim_music_host_def claim_grant_def Let_def good_def split: option.splits)

lemma good_release: "room_inv r \<Longrightarrow> good (release_music_host s rid r)"
  by (auto simp add: release_music_host_def Let_def good_def split: option.splits)

lemma good_suggest: "room_inv r \<Longrightarrow> good (music_suggest_track e s rid t r)"
  by (auto simp add: music_suggest_track_def Let_def good_def split: option.splits)

lemma good_accept: "room_inv r \<Longrightarrow> good (music_accept_suggestion e s rid sg r)"
  by (auto simp add: music_accept_suggestion_def Let_def good_def split: option.splits)

lemma good_reject: "room_inv r \<Longrightarrow> good (music_reject_suggestion s rid sg r)"
  by (auto simp add: music_reject_suggestion_def Let_def good_def split: option.splits)

lemma good_add_queue: "room_inv r \<Longrightarrow> good (music_add_to_queue e s rid t r)"
  by (auto simp add: music_add_to_queue_def Let_def good_def split: option.splits)

lemma good_session: "room_inv r \<Longrightarrow> good (spotify_host_session_update s rid cid ses r)"
  by (auto simp add: spotify_host_session_update_def Let_def good_def split: option.splits)

lemma good_device: "room_inv r \<Longrightarrow> good (spotify_host_device_update s rid dev r)"
  by (auto simp add: spotify_host_device_update_def Let_def good_def split: option.splits)

lemma ensure_room:
  "fst (snd (ensureRoomSpotifySession t ora r)) = r \<or>
   (\<exists>n. fst (snd (ensureRoomSpotifySession t ora r)) = r\<lparr>music := (music r)\<lparr>hostSession := Some n\<rparr>\<rparr>)"
  by (auto simp add: ensureRoomSpotifySession_def split: option.split prod.split sum.split)

lemma fetch_room:
  "fst (snd (spotifyHostFetch t ora r)) = fst (snd (ensureRoomSpotifySession t ora r))"
  by (simp add: spotifyHostFetch_def split: prod.split sum.split http_result.split)

lemma fetch_frame:
  assumes "spotifyHostFetch t ora r = (res, r', ora')"
  shows "r' = r \<or> (\<exists>n. r' = r\<lparr>music := (music r)\<lparr>hostSession := Some n\<rparr>\<rparr>)"
proof -
  have "r' = fst (snd (ensureRoomSpotifySession t ora r))"
    using fetch_room[of t ora r] assms by simp
  then show ?thesis using ensure_room[of t ora r] by simp
qed

lemma inv_fetch: "spotifyHostFetch t ora r = (res, r', ora') \<Longrightarrow> room_inv r' = room_inv r"
  by (drule fetch_frame) auto

lemma good_await_fetch:
  assumes "room_inv r"
    and "\<And>d r' ora'. room_inv r' \<Longrightarrow> good (k d r' ora')"
  shows "good (await_fetch e ora r k)"
proof -
  obtain res r' ora' where f: "spotifyHostFetch (now e) ora r = (res, r', ora')"
    by (cases "spotifyHostFetch (now e) ora r") auto
  then have "room_inv r'" using assms(1) inv_fetch by blast
  then show ?thesis unfolding await_fetch_def f by (cases res) (simp_all add: assms(2))
qed

lemma good_play_queued:
  assumes "room_inv r"
  shows "good (play_queued_next e rid usr r)"
proof (cases "queue (music r)")
  case Nil
  then show ?thesis using assms by (simp add: play_queued_next_def)
next
  case (Cons nxt rest)
  have "good (await_fetch e (http e) (r\<lparr>music := (music r)\<lparr>queue := rest\<rparr>\<rparr>) (\<lambda>_ room2 _.
            (room2, [(To (Some rid), ROOM_STATE room2)] @ done_with (ReplyQueued nxt))))"
    by (rule good_await_fetch) (simp_all add: assms good_def)
  then show ?thesis using assms Cons by (simp add: play_queued_next_def)
qed

lemma good_control_action:
  assumes "room_inv r"
  shows "good (control_action e rid usr act r)"
proof (cases act)
  case CURRENT_TRACK
  then show ?thesis using assms unfolding control_action_def
    by (auto intro!: good_await_fetch split: option.splits)
next
  case (SEARCH q)
  then show ?thesis using assms unfolding control_action_def
    by (auto intro!: good_await_fetch)
next
  case (PLAY_URI u)
  then show ?thesis using assms unfolding control_action_def
    by (auto intro!: good_await_fetch)
next
  case PLAY_QUEUED_NEXT
  then show ?thesis using assms by (simp add: control_action_def good_play_queued)
next
  case TOGGLE_PLAY_PAUSE
  then show ?thesis using assms unfolding control_action_def
    by (auto intro!: good_await_fetch)
next
  case NEXT
  then show ?thesis using assms unfolding control_action_def
    by (auto intro!: good_await_fetch)
next
  case PREV
  then show ?thesis using assms unfolding control_action_def
    by (auto intro!: good_await_fetch)
next
  case (OTHER_ACTION x)
  then show ?thesis using assms by (simp add: control_action_def)
qed

lemma good_control: "room_inv r \<Longrightarrow> good (music_control_request e s rid act r)"
  by (auto simp add: music_control_request_def good_control_action split: option.splits)

lemma good_wheel_options: "room_inv r \<Longrightarrow> good (set_wheel_options e s rid opts r)"
  by (auto simp add: set_wheel_options_def Let_def good_def room_inv_game split: option.splits)

lemma good_add_note: "room_inv r \<Longrightarrow> good (add_lobby_note e s rid txt r)"
  by (auto simp add: add_lobby_note_def Let_def good_def split: option.splits)

lemma good_delete_note: "room_inv r \<Longrightarrow> good (delete_lobby_note s rid nid r)"
  by (auto simp add: delete_lobby_note_def Let_def good_def split: option.splits)

lemma good_spin: "room_inv r \<Longrightarrow> good (spin_wheel e s rid r)"
  by (auto simp add: spin_wheel_def Let_def good_def room_inv_game split: option.splits)

lemma good_disconnect_room:
  assumes "room_inv r"
  shows "good (disconnect_room s r)"
proof (cases "by_socket s r")
  case None
  then show ?thesis using assms by (simp add: disconnect_room_def)
next
  case (Some usr)
  have "room_inv (fst (disconnect_room s r)) = room_inv r"
    by (rule room_inv_cong) (simp_all add: disconnect_room_def Some Let_def keys_upd_first, simp add: keys_def)
  then show ?thesis using assms Some by (simp add: good_def) (simp add: disconnect_room_def Let_def)
qed

lemma set_update_subset: "set (AList.update k v al) \<subseteq> insert (k, v) (set al)"
  by (induction al) auto

lemma rooms_inv_update: "rooms_inv rs \<Longrightarrow> room_inv r \<Longrightarrow> rooms_inv (AList.update rid r rs)"
  using set_update_subset[of rid r rs] by (auto simp add: rooms_inv_def)

lemma rooms_inv_lookup: "rooms_inv rs \<Longrightarrow> map_of rs rid = Some r \<Longrightarrow> room_inv r"
  by (auto simp add: rooms_inv_def dest: map_of_SomeD)

lemma step_ok_on_room:
  assumes "rooms_inv rs" and "\<And>r. room_inv r \<Longrightarrow> good (h r)"
  shows "step_ok (on_room rs rid h)"
proof (cases "map_of rs rid")
  case None
  then show ?thesis using assms(1) by (simp add: on_room_def step_ok_def)
next
  case (Some r)
  then have "good (h r)" using assms rooms_inv_lookup by blast
  then show ?thesis using assms(1) Some
    by (cases "h r") (auto simp add: on_room_def step_ok_def good_def rooms_inv_update)
qed

lemma inv_new_room: "room_inv (new_room s rid p n c k)"
  by (simp add: new_room_def room_inv_def keys_def new_user_def)

lemma step_ok_create: "rooms_inv rs \<Longrightarrow> step_ok (create_room s rid p n c k rs)"
  by (auto simp add: create_room_def step_ok_def Let_def inv_new_room rooms_inv_update split: option.splits)

lemma step_ok_join: 
  assumes "rooms_inv rs"
  shows "step_ok (join_room e s rid p n c k rs)"
proof (cases "map_of rs rid")
  case None
  then show ?thesis using assms by (simp add: join_room_def step_ok_def Let_def inv_new_room rooms_inv_update)
next
  case (Some r)
  then have "good (join_existing e s rid p n c k r)" using assms rooms_inv_lookup good_join_existing by blast
  then show ?thesis using assms Some
    by (cases "join_existing e s rid p n c k r") (auto simp add: join_room_def step_ok_def good_def rooms_inv_update)
qed

lemma step_ok_disconnect:
  assumes "rooms_inv rs"
  shows "step_ok (disconnect s rs)"
proof -
  have "\<forall>(rid, r) \<in> set rs. good (disconnect_room s r)"
    using assms good_disconnect_room by (auto simp add: rooms_inv_def)
  then show ?thesis
    by (induction rs) (auto simp add: disconnect_def step_ok_def rooms_inv_def good_def)
qed

lemma step_ok_step: "rooms_inv rs \<Longrightarrow> step_ok (step e s ev rs)"
proof (cases ev)
  case (MUSIC_CONTROL_REQUEST rid act)
  assume inv: "rooms_inv rs"
  have "step_ok (on_room rs rid (music_control_request e s rid act))"
    using inv by (rule step_ok_on_room) (rule good_control)
  then show ?thesis unfolding MUSIC_CONTROL_REQUEST using inv
    by (cases "map_of rs rid") (simp_all add: step_ok_def)
qed (simp_all add: step_ok_create step_ok_join step_ok_disconnect step_ok_on_room
      good_draw good_clear good_guess good_skip good_restart good_set_active good_claim good_release
      good_suggest good_accept good_reject good_add_queue good_session good_device
      good_wheel_options good_add_note good_delete_note good_spin)

lemma exec_inv: "rooms_inv rs \<Longrightarrow> step_ok (exec tr rs)"
proof (induction tr arbitrary: rs)
  case Nil
  then show ?case by (simp add: step_ok_def)
next
  case (Cons a tr)
  obtain e s ev where a: "a = (e, s, ev)" by (cases a) auto
  obtain rs1 o1 where st: "step e s ev rs = (rs1, o1)" by (cases "step e s ev rs") auto
  obtain rs2 o2 where ex: "exec tr rs1 = (rs2, o2)" by (cases "exec tr rs1") auto
  have 1: "step_ok (rs1, o1)" using step_ok_step[OF Cons.prems, of e s ev] st by simp
  then have 2: "step_ok (rs2, o2)" using Cons.IH[of rs1] ex by (simp add: step_ok_def)
  show ?case using 1 2 by (auto simp add: a st ex step_ok_def)
qed

lemma snapshot_inv: "x \<in> set (snapshots (snd (exec tr []))) \<Longrightarrow> room_inv x"
  using exec_inv[of "[]" tr] by (simp add: step_ok_def rooms_inv_def)

lemma reachable_inv: "map_of (fst (exec tr [])) rid = Some room \<Longrightarrow> room_inv room"
  using exec_inv[of "[]" tr] by (auto simp add: step_ok_def rooms_inv_def dest: map_of_SomeD)

section \<open>Guessing\<close>

lemma truthy_Some: "truthy x \<Longrightarrow> \<exists>y. x = Some y"
  by (cases x) auto

lemma guesser_found:
  assumes "room_inv room" "truthy (guesserUserKey (game room))"
  shows "\<exists>u. find (\<lambda>u. userKey u = guesserUserKey (game room)) (users room) = Some u"
proof -
  have "guesserUserKey (game room) \<noteq> None" using assms(2) truthy_Some by fastforce
  then have "guesserUserKey (game room) \<in> set (keys room)"
    using assms(1) by (simp add: room_inv_def Let_def)
  then have "\<exists>u \<in> set (users room). userKey u = guesserUserKey (game room)"
    by (auto simp add: keys_def)
  then show ?thesis
    by (cases "find (\<lambda>u. userKey u = guesserUserKey (game room)) (users room)")
       (auto simp add: find_None_iff)
qed

lemma judged_wrong: "\<not> judged_correct (snd (guess_wrong e s rid room))"
  by (simp add: guess_wrong_def Let_def judged_correct_def assign_word_def)

lemma wrong_emits: "snd (guess_wrong e s rid room) \<noteq> []"
  by (simp add: guess_wrong_def Let_def)

lemma judged_right:
  "find (\<lambda>u. userKey u = guesserUserKey (game room)) (users room) = Some u \<Longrightarrow>
   judged_correct (snd (guess_right e rid room))"
  by (simp add: guess_right_def Let_def judged_correct_def)

lemma trim_pad:
  assumes "\<forall>c \<in> set pre. is_space c" "\<forall>c \<in> set post. is_space c"
  shows "trim (pre @ s @ post) = trim s"
proof -
  have 1: "dropWhile is_space (pre @ s @ post) = dropWhile is_space (s @ post)"
    by (rule dropWhile_append2) (use assms(1) in auto)
  show ?thesis
  proof (cases "\<forall>c \<in> set s. is_space c")
    case True
    then have a: "dropWhile is_space (s @ post) = []" and b: "dropWhile is_space s = []"
      using assms(2) by (simp_all add: dropWhile_eq_Nil_conv)
    show ?thesis unfolding trim_def 1 a b by simp
  next
    case False
    then obtain x where "x \<in> set s" "\<not> is_space x" by blast
    then have a: "dropWhile is_space (s @ post) = dropWhile is_space s @ post"
      by (rule dropWhile_append1)
    have b: "dropWhile is_space (rev post @ rev (dropWhile is_space s)) =
             dropWhile is_space (rev (dropWhile is_space s))"
      by (rule dropWhile_append2) (use assms(2) in auto)
    show ?thesis unfolding trim_def 1 a rev_append b by (rule refl)
  qed
qed

lemma trim_ends:
  assumes "trim s \<noteq> []"
  shows "\<not> is_space (hd (trim s)) \<and> \<not> is_space (last (trim s))"
proof -
  let ?a = "dropWhile is_space s"
  let ?b = "dropWhile is_space (rev ?a)"
  have b: "?b \<noteq> []" using assms by (simp add: trim_def)
  then have l: "\<not> is_space (hd ?b)" by (rule hd_dropWhile)
  have "last (trim s) = hd ?b" using b by (simp add: trim_def last_rev)
  then have 1: "\<not> is_space (last (trim s))" using l by simp
  have a: "?a \<noteq> []"
  proof
    assume h: "?a = []"
    have "?b = []" unfolding h by simp
    with b show False by simp
  qed
  then have ha: "\<not> is_space (hd ?a)" by (rule hd_dropWhile)
  have "rev ?a = takeWhile is_space (rev ?a) @ ?b" by simp
  then have "?a = rev ?b @ rev (takeWhile is_space (rev ?a))"
    by (metis rev_append rev_rev_ident)
  moreover have "trim s = rev ?b" by (simp add: trim_def)
  ultimately have "hd (trim s) = hd ?a" using b by (metis hd_append2 rev_is_Nil_conv)
  then show ?thesis using ha 1 by simp
qed

lemma trim_splits: "\<exists>pre post. s = pre @ trim s @ post \<and> list_all is_space pre \<and> list_all is_space post"
proof -
  let ?a = "dropWhile is_space s"
  let ?b = "dropWhile is_space (rev ?a)"
  have 1: "s = takeWhile is_space s @ ?a" by simp
  have 2: "rev ?a = takeWhile is_space (rev ?a) @ ?b" by simp
  have "?a = rev ?b @ rev (takeWhile is_space (rev ?a))"
    using 2 by (metis rev_append rev_rev_ident)
  then have 3: "s = takeWhile is_space s @ trim s @ rev (takeWhile is_space (rev ?a))"
    using 1 by (simp add: trim_def)
  have 4: "list_all is_space (takeWhile is_space s)"
    by (simp add: list_all_iff) (meson set_takeWhileD)
  have 5: "list_all is_space (rev (takeWhile is_space (rev ?a)))"
    by (simp add: list_all_iff) (meson set_takeWhileD)
  show ?thesis using 3 4 5 by blast
qed

lemma step_guess:
  "map_of rs rid = Some room \<Longrightarrow>
   step e s (GUESS rid g) rs =
     (AList.update rid (fst (guess e s rid g room)) rs, snd (guess e s rid g room))"
  by (simp add: on_room_def split_beta)

section \<open>The creating join\<close>

lemma no_pin_error_join_finish:
  "(t, JOIN_ERROR ''Invalid PIN for this room.'') \<notin> set (snd (join_finish e s rid k room))"
  by (auto simp add: join_finish_def join_start_def Let_def split: prod.splits if_splits)

lemma no_pin_error_join_existing:
  "pin room = p \<Longrightarrow>
   (t, JOIN_ERROR ''Invalid PIN for this room.'') \<notin>
     set (snd (join_existing e s rid p n c k room))"
  by (simp add: join_existing_def no_pin_error_join_finish split: option.split)

section \<open>The claims\<close>

subsection \<open>C1: the two roles in every snapshot\<close>

text \<open>
  C1. The claim says that in every snapshot the two role keys are both absent or two
  different keys of registered members, and that a snapshot with a current word has both
  role keys. The join handler registers a member under whatever key the payload holds and
  starts the round as soon as the room has two members. In the run \<open>c1_fresh_browser\<close>
  the second member has the key \<open>null\<close>: the snapshot that is broadcast has Ann's key as
  the drawer key, no guesser key, and the current word \<open>cat\<close>.
\<close>

theorem C1_guesser_key_absent_beside_word:
  "c1_snapshot \<in> set (snapshots (snd (exec c1_fresh_browser []))) \<and>
   keys c1_snapshot = [Some ''a'', None] \<and>
   drawerUserKey (game c1_snapshot) = Some ''a'' \<and>
   guesserUserKey (game c1_snapshot) = None \<and>
   guesserId (game c1_snapshot) = Some ''s2'' \<and>
   currentWord (game c1_snapshot) = Some (utf16 ''cat'')"
  by code_simp

subsection \<open>C2: scoring after the cap\<close>

text \<open>
  C2. The claim says that after a score reaches the cap no further scoring occurs until a
  restart. In the run \<open>c2_until_cap\<close> Bob reaches 5 points and the round state is
  cleared. Ann then reloads the page and her client joins again: the test "two members and
  no drawer key" of the join handler holds, so a new round starts with the points as they
  are, and Bob's next correct guess gives him 6 points. No \<open>RESTART_GAME\<close> occurs in
  the run.
\<close>

theorem C2_scoring_resumes_after_cap:
  "map_option scores (room_after c2_until_cap) = Some [(Some ''a'', 4), (Some ''b'', 5)] \<and>
   map_option round_state (room_after c2_until_cap) = Some (None, None, None, None, None) \<and>
   map_option round_state (room_after (c2_until_cap @ c2_reload)) =
     Some (Some ''a'', Some ''b'', Some ''s4'', Some ''s2'', Some (utf16 ''cat'')) \<and>
   map_option scores (room_after c2_resumed) = Some [(Some ''a'', 4), (Some ''b'', 6)]"
  by code_simp

subsection \<open>C3: the wrong-guess counter\<close>

text \<open>
  C3. The claim says that exactly five wrong guesses in one round trigger the rotation.
  The join handler starts a round without resetting the counter, and so does the restart
  with fewer than two connected members. In the run \<open>c3_rejoined\<close> the round that
  starts when Bob comes back has the counter at 3: his first wrong guess is announced as
  the fourth, and his second wrong guess skips the round and rotates the roles.
\<close>

theorem C3_rotation_after_two_wrong_guesses:
  "map_option (\<lambda>r. (round_state r, wrongGuessCount (game r))) (room_after c3_rejoined) =
     Some ((Some ''a'', Some ''b'', Some ''s1'', Some ''s3'', Some (utf16 ''cat'')), 3) \<and>
   snd (exec [says ''s3'' ''dog''] (fst (exec c3_rejoined []))) =
     [(To (Some ''s3''), WRONG_GUESS ''Wrong guess (4/5).'')] \<and>
   (To (Some ''R1''), ROUND_SKIPPED (Some (utf16 ''cat''))) \<in>
     set (snd (exec [says ''s3'' ''dog''] (fst (exec (c3_rejoined @ [says ''s3'' ''dog'']) [])))) \<and>
   map_option round_state (room_after (c3_rejoined @ [says ''s3'' ''dog'', says ''s3'' ''dog''])) =
     Some (Some ''b'', Some ''a'', Some ''s3'', Some ''s1'', Some (utf16 ''cat''))"
  by code_simp

subsection \<open>C4: who may guess, and when a guess is right\<close>

text \<open>
  C4. For a room of any run from the empty registry: a \<open>GUESS\<close> has an effect (a changed
  room or a message) only if it comes from the socket bound to the guesser role while a
  word is active; a guess that passes the guard always has an effect; and it is judged
  correct exactly when the guess, lowered and then trimmed, equals the lowered current
  word, where lowering is the \<open>toLowerCase\<close> of the platform, whatever it is. The
  \<open>GUESS\<close> event on the room's identifier does what this handler does. Trimming takes
  the longest prefix and the longest suffix of white space and line terminators away: white
  space around a text is ignored, what is cut off is white space, and what stays is empty
  or begins and ends with a code unit that is no white space. The code units in
  \<open>white_space\<close> are white space, those in \<open>not_white_space\<close> are not.
\<close>

theorem C4_guess_accepted_and_judged:
  assumes "map_of (fst (exec tr [])) r = Some room"
  shows "(guess e s rid g room \<noteq> (room, []) \<longrightarrow>
            guesserId (game room) = Some s \<and> truthy (currentWord (game room))) \<and>
         (guesser_may_act s room \<longrightarrow> snd (guess e s rid g room) \<noteq> []) \<and>
         (guess e s rid g room \<noteq> (room, []) \<longrightarrow>
            (judged_correct (snd (guess e s rid g room)) \<longleftrightarrow>
             trim (toLowerCase e g) = toLowerCase e (the (currentWord (game room))))) \<and>
         (r = rid \<longrightarrow>
            step e s (GUESS rid g) (fst (exec tr [])) =
              (AList.update rid (fst (guess e s rid g room)) (fst (exec tr [])),
               snd (guess e s rid g room))) \<and>
         (list_all is_space pre \<and> list_all is_space post \<longrightarrow>
            trim (pre @ g @ post) = trim g) \<and>
         (\<exists>pre post. g = pre @ trim g @ post \<and> list_all is_space pre \<and> list_all is_space post) \<and>
         (trim g = [] \<or> (\<not> is_space (hd (trim g)) \<and> \<not> is_space (last (trim g)))) \<and>
         list_all is_space white_space \<and> \<not> list_ex is_space not_white_space"
proof -
  have inv: "room_inv room" using assms by (rule reachable_inv)
  have 1: "guess e s rid g room \<noteq> (room, []) \<Longrightarrow> guesser_may_act s room"
    by (auto simp add: guess_def split: if_splits)
  have 2: "guesser_may_act s room \<Longrightarrow>
      guesserId (game room) = Some s \<and> truthy (currentWord (game room)) \<and>
      truthy (guesserUserKey (game room))"
    by (auto simp add: guesser_may_act_def split: if_splits)
  have 3: "judged_correct (snd (guess e s rid g room)) \<longleftrightarrow>
           trim (toLowerCase e g) = toLowerCase e (the (currentWord (game room)))"
       and 4: "snd (guess e s rid g room) \<noteq> []"
    if a: "guesser_may_act s room"
  proof -
    obtain u where
      u: "find (\<lambda>u. userKey u = guesserUserKey (game room)) (users room) = Some u"
      using guesser_found[OF inv] 2 a by blast
    show "judged_correct (snd (guess e s rid g room)) \<longleftrightarrow>
          trim (toLowerCase e g) = toLowerCase e (the (currentWord (game room)))"
      using a u by (simp add: guess_def guess_matches_def judged_wrong judged_right)
    have "judged_correct (snd (guess_right e rid room))" using u by (rule judged_right)
    then have "snd (guess_right e rid room) \<noteq> []" by (auto simp add: judged_correct_def)
    then show "snd (guess e s rid g room) \<noteq> []"
      using a by (simp add: guess_def wrong_emits)
  qed
  have 5: "r = rid \<Longrightarrow>
            step e s (GUESS rid g) (fst (exec tr [])) =
              (AList.update rid (fst (guess e s rid g room)) (fst (exec tr [])),
               snd (guess e s rid g room))"
    using assms by (simp only: step_guess)
  have 6: "list_all is_space pre \<and> list_all is_space post \<longrightarrow>
            trim (pre @ g @ post) = trim g"
    using trim_pad by (simp add: list_all_iff)
  have 7: "\<exists>pre post. g = pre @ trim g @ post \<and> list_all is_space pre \<and> list_all is_space post"
    by (rule trim_splits)
  have 8: "trim g = [] \<or> (\<not> is_space (hd (trim g)) \<and> \<not> is_space (last (trim g)))"
    using trim_ends by blast
  have 9: "list_all is_space white_space" "\<not> list_ex is_space not_white_space"
    by code_simp+
  show ?thesis using 1 2 3 4 5 6 7 8 9 by blast
qed

text \<open>
  C4 at the room of Ann and Bob: Bob's guess \<open>CAT\<close> between a no-break space, a blank, a
  tabulator and a line separator, sent from his socket, is accepted and judged correct for
  the word \<open>cat\<close>.
\<close>

theorem C4_guess_accepted_and_judged_witness:
  "map_of (fst (exec [join_a, join_b] [])) ''R1'' = Some two_joined \<and>
   guess env0 ''s2'' ''R1'' c4_guess two_joined \<noteq> (two_joined, []) \<and>
   guesser_may_act ''s2'' two_joined \<and>
   list_all is_space [160, 32] \<and> list_all is_space [9, 8232] \<and>
   guesserId (game two_joined) = Some ''s2'' \<and>
   truthy (currentWord (game two_joined)) \<and>
   judged_correct (snd (guess env0 ''s2'' ''R1'' c4_guess two_joined)) \<and>
   trim (toLowerCase env0 c4_guess) = toLowerCase env0 (the (currentWord (game two_joined))) \<and>
   snd (step env0 ''s2'' (GUESS ''R1'' c4_guess) (fst (exec [join_a, join_b] []))) =
     snd (guess env0 ''s2'' ''R1'' c4_guess two_joined) \<and>
   trim ([160, 32] @ utf16 ''CAT'' @ [9, 8232]) = utf16 ''CAT''"
proof -
  have h: "map_of (fst (exec [join_a, join_b] [])) ''R1'' = Some two_joined" by code_simp
  have a: "guess env0 ''s2'' ''R1'' c4_guess two_joined \<noteq> (two_joined, [])" by code_simp
  have b: "guesser_may_act ''s2'' two_joined" by code_simp
  have m: "trim (toLowerCase env0 c4_guess) = toLowerCase env0 (the (currentWord (game two_joined)))"
    by code_simp
  have l: "list_all is_space [160, 32]" "list_all is_space [9, 8232]" by code_simp+
  have t: "trim (utf16 ''CAT'') = utf16 ''CAT''" by code_simp
  note c4 = C4_guess_accepted_and_judged[OF h, of env0 "''s2''" "''R1''"]
  from c4[of c4_guess] a m
  have c: "guesserId (game two_joined) = Some ''s2''" "truthy (currentWord (game two_joined))"
          "judged_correct (snd (guess env0 ''s2'' ''R1'' c4_guess two_joined))"
    by blast+
  from c4[of c4_guess]
  have d: "step env0 ''s2'' (GUESS ''R1'' c4_guess) (fst (exec [join_a, join_b] [])) =
             (AList.update ''R1'' (fst (guess env0 ''s2'' ''R1'' c4_guess two_joined))
                (fst (exec [join_a, join_b] [])),
              snd (guess env0 ''s2'' ''R1'' c4_guess two_joined))"
    by blast
  from c4[of "utf16 ''CAT''" "[160, 32]" "[9, 8232]"] l t
  have p: "trim ([160, 32] @ utf16 ''CAT'' @ [9, 8232]) = utf16 ''CAT''"
    by simp
  show ?thesis using h a b c m p l d by simp
qed

subsection \<open>C5: spinning out of turn\<close>

text \<open>
  C5. The claim says that a spin is resolved only for the holder of the wheel turn. The
  handler tests that the sender is on the wheel tab and recomputes the turn, but it never
  compares the sender with the turn holder. In the room \<open>c5_room\<close> the turn is Ann's;
  Bob's socket sends \<open>SPIN_WHEEL\<close>, and the spin is resolved and broadcast with Bob as
  the spinner; the turn is still Ann's afterwards.
\<close>

theorem C5_spin_out_of_turn:
  "wheelTurnUserKey (game c5_room) = Some ''a'' \<and>
   map_option userKey (by_socket ''s2'' c5_room) = Some (Some ''b'') \<and>
   snd (spin_wheel env0 ''s2'' ''R1'' c5_room) =
     [(To (Some ''R1''), WHEEL_RESULT (utf16 ''Movie night pick'') 0 (Some ''b'')),
      (To (Some ''R1''), ROOM_STATE (fst (spin_wheel env0 ''s2'' ''R1'' c5_room)))] \<and>
   wheelTurnUserKey (game (fst (spin_wheel env0 ''s2'' ''R1'' c5_room))) = Some ''a''"
  by code_simp

subsection \<open>C6: a failed play of the queue head\<close>

text \<open>
  C6. The claim says that a failed \<open>PLAY_QUEUED_NEXT\<close> leaves the queue unchanged. The
  handler takes the head off the queue before it awaits the provider call. In the run
  \<open>c6_queued\<close> the queue holds one track; the provider answers the play call with
  status 500; the request is answered with the failure, no snapshot is broadcast, and the
  queue is empty afterwards, as it is after a play call that succeeds (status 204, with a
  snapshot and the answer).
\<close>

theorem C6_failed_play_loses_entry:
  "map_option (\<lambda>r. map uri (queue (music r))) (room_after c6_queued) =
     Some [utf16 ''spotify:track:t1''] \<and>
   snd (exec [c6_play_fails] (fst (exec c6_queued []))) =
     [(Callback, RESPONSE (ReplyFail ''Spotify API failed (500).''))] \<and>
   map_option (\<lambda>r. map uri (queue (music r))) (room_after (c6_queued @ [c6_play_fails])) =
     Some [] \<and>
   map fst (snd (exec [c6_play_succeeds] (fst (exec c6_queued [])))) =
     [To (Some ''R1''), Callback] \<and>
   map_option (\<lambda>r. map uri (queue (music r))) (room_after (c6_queued @ [c6_play_succeeds])) =
     Some []"
  by code_simp

subsection \<open>C7: claiming the music host\<close>

text \<open>
  C7, as stated, fails when the connected host itself sends \<open>CLAIM_MUSIC_HOST\<close>: in the
  room \<open>c7_hosted\<close> Ann is the connected host, and her second claim is granted with a
  snapshot and no error.
\<close>

theorem C7_host_claims_again_counterexample:
  "hostUserKey (music c7_hosted) = Some ''a'' \<and> host_connected c7_hosted \<and>
   claim_music_host ''s1'' ''R1'' c7_hosted =
     (c7_hosted\<lparr>music := (music c7_hosted)\<lparr>hostSocketId := Some ''s1''\<rparr>\<rparr>,
      [(To (Some ''R1''),
        ROOM_STATE (c7_hosted\<lparr>music := (music c7_hosted)\<lparr>hostSocketId := Some ''s1''\<rparr>\<rparr>))])"
  by code_simp

text \<open>
  C7, amended. A room has one host key. A claim by a member other than the host, while the
  host key is set and the host is connected, leaves the room as it is and answers with an
  error that names the host. Every other claim by a member is granted: there is no host key
  (or it is empty), or the claimant is the host, or the host is not connected; the claimant
  then is the host, and the snapshot is broadcast.
\<close>

theorem C7_claim_by_another_member:
  assumes "by_socket s room = Some usr"
  shows "(truthy (hostUserKey (music room)) \<and> hostUserKey (music room) \<noteq> userKey usr \<and>
          host_connected room \<longrightarrow>
            claim_music_host s rid room =
              (room, [(Self s, MUSIC_ERROR (already_hosting (the (current_host room))))])) \<and>
         (\<not> (truthy (hostUserKey (music room)) \<and> hostUserKey (music room) \<noteq> userKey usr \<and>
             host_connected room) \<longrightarrow>
            hostUserKey (music (fst (claim_music_host s rid room))) = userKey usr \<and>
            hostName (music (fst (claim_music_host s rid room))) = name usr \<and>
            snd (claim_music_host s rid room) =
              [(To (Some rid), ROOM_STATE (fst (claim_music_host s rid room)))])"
  using assms
  by (auto simp add: claim_music_host_def claim_grant_def Let_def host_connected_def
        current_host_def connected_def split: option.splits)

text \<open>
  C7, amended, at the room \<open>c7_hosted\<close>: Bob's claim is refused with Ann's name, and
  Ann's own claim is granted.
\<close>

theorem C7_claim_by_another_member_witness:
  "by_socket ''s2'' c7_hosted = Some (users c7_hosted ! 1) \<and>
   truthy (hostUserKey (music c7_hosted)) \<and>
   hostUserKey (music c7_hosted) \<noteq> userKey (users c7_hosted ! 1) \<and>
   host_connected c7_hosted \<and>
   claim_music_host ''s2'' ''R1'' c7_hosted =
     (c7_hosted, [(Self ''s2'', MUSIC_ERROR ''Ann is already hosting Spotify.'')]) \<and>
   by_socket ''s1'' c7_hosted = Some (users c7_hosted ! 0) \<and>
   hostUserKey (music c7_hosted) = userKey (users c7_hosted ! 0) \<and>
   hostUserKey (music (fst (claim_music_host ''s1'' ''R1'' c7_hosted))) = Some ''a''"
proof -
  have b: "by_socket ''s2'' c7_hosted = Some (users c7_hosted ! 1)" by code_simp
  have t: "truthy (hostUserKey (music c7_hosted))" by code_simp
  have n: "hostUserKey (music c7_hosted) \<noteq> userKey (users c7_hosted ! 1)" by code_simp
  have c: "host_connected c7_hosted" by code_simp
  have m: "already_hosting (the (current_host c7_hosted)) = ''Ann is already hosting Spotify.''"
    by code_simp
  have a: "by_socket ''s1'' c7_hosted = Some (users c7_hosted ! 0)" by code_simp
  have h: "hostUserKey (music c7_hosted) = userKey (users c7_hosted ! 0)" by code_simp
  have k: "userKey (users c7_hosted ! 0) = Some ''a''" by code_simp
  from C7_claim_by_another_member[OF b, of "''R1''"] C7_claim_by_another_member[OF a, of "''R1''"]
    b t n c m a h k
  show ?thesis by simp
qed

subsection \<open>C8: the host disconnects, the host releases\<close>

text \<open>
  C8. The claim says that when the connection of the music host disconnects, the session,
  the device id and the ready flag are cleared while the host key stays, that a release
  clears the host identity too, and that the rest of the room is untouched. After the run
  \<open>c8_hosted\<close> Bob hosts on socket \<open>s2\<close>. When \<open>s2\<close> disconnects, the five live fields
  are cleared and the key and the name stay; when Bob releases, all seven host fields are
  cleared; in both cases the members, the notes, the queue, the suggestions and the game
  are as before. But the disconnect handler takes the first member that it finds on the
  socket and clears the host fields only if that member is the host. After the run
  \<open>c8_shared\<close> Ann and Bob are both bound to \<open>s2\<close>, and Ann comes first: when \<open>s2\<close>
  disconnects, Ann is marked as disconnected, Bob keeps the socket that is gone, and the
  session, the client id, the device id, the host socket and the ready flag are kept.
\<close>

theorem C8_host_socket_drops_session_kept:
  "map_option host_fields (room_after c8_hosted) =
     Some (Some ''b'', Some ''Bob'', Some ''s2'', Some c6_session, Some ''client'',
           Some ''device-1'', True) \<and>
   map_option host_fields (room_after (c8_hosted @ [(env0, ''s2'', DISCONNECT)])) =
     Some (Some ''b'', Some ''Bob'', None, None, None, None, False) \<and>
   map_option rest_of_room (room_after (c8_hosted @ [(env0, ''s2'', DISCONNECT)])) =
     map_option rest_of_room (room_after c8_hosted) \<and>
   map_option (map socketId \<circ> users) (room_after (c8_hosted @ [(env0, ''s2'', DISCONNECT)])) =
     Some [Some ''s1'', None] \<and>
   map_option host_fields (room_after (c8_hosted @ [(env0, ''s2'', RELEASE_MUSIC_HOST ''R1'')])) =
     Some (None, None, None, None, None, None, False) \<and>
   map_option rest_of_room (room_after (c8_hosted @ [(env0, ''s2'', RELEASE_MUSIC_HOST ''R1'')])) =
     map_option rest_of_room (room_after c8_hosted) \<and>
   map_option (map socketId \<circ> users) (room_after c8_shared) = Some [Some ''s2'', Some ''s2''] \<and>
   map_option host_fields (room_after c8_shared) = map_option host_fields (room_after c8_hosted) \<and>
   map_option host_fields (room_after (c8_shared @ [(env0, ''s2'', DISCONNECT)])) =
     Some (Some ''b'', Some ''Bob'', Some ''s2'', Some c6_session, Some ''client'',
           Some ''device-1'', True) \<and>
   map_option (map socketId \<circ> users) (room_after (c8_shared @ [(env0, ''s2'', DISCONNECT)])) =
     Some [None, Some ''s2'']"
  by code_simp

subsection \<open>C9: the roles when fewer than two members are connected\<close>

text \<open>
  C9, as stated, fails: after Bob's socket disconnects, the snapshot that is broadcast has
  one connected member and still both role keys.
\<close>

theorem C9_roles_kept_after_disconnect_counterexample:
  "c9_snapshot \<in> set (snapshots (snd (exec c9_left []))) \<and>
   length (filter connected (users c9_snapshot)) = 1 \<and>
   drawerUserKey (game c9_snapshot) = Some ''a'' \<and>
   guesserUserKey (game c9_snapshot) = Some ''b''"
  by code_simp

text \<open>
  C9, amended. In every snapshot of a room with fewer than two registered members both role
  keys are absent. A restart that a member sends while fewer than two members are connected
  clears both role keys in the snapshot it broadcasts. A disconnection leaves both role
  keys as they are.
\<close>

theorem C9_roles_cleared:
  "(room \<in> set (snapshots (snd (exec tr []))) \<and> length (users room) < 2 \<longrightarrow>
      drawerUserKey (game room) = None \<and> guesserUserKey (game room) = None) \<and>
   (by_socket s r \<noteq> None \<and> length (filter connected (users r)) < 2 \<longrightarrow>
      snapshots (snd (restart_game e s rid r)) = [fst (restart_game e s rid r)] \<and>
      drawerUserKey (game (fst (restart_game e s rid r))) = None \<and>
      guesserUserKey (game (fst (restart_game e s rid r))) = None) \<and>
   drawerUserKey (game (fst (disconnect_room s r))) = drawerUserKey (game r) \<and>
   guesserUserKey (game (fst (disconnect_room s r))) = guesserUserKey (game r)"
proof -
  have 1: "room \<in> set (snapshots (snd (exec tr []))) \<Longrightarrow> length (users room) < 2 \<Longrightarrow>
      drawerUserKey (game room) = None \<and> guesserUserKey (game room) = None"
    using snapshot_inv[of room tr] by (auto simp add: room_inv_def Let_def keys_def)
  have c: "connected \<circ> points_update (\<lambda>_. 0) = connected"
    by (simp add: fun_eq_iff connected_def)
  have 2: "by_socket s r \<noteq> None \<Longrightarrow> length (filter connected (users r)) < 2 \<Longrightarrow>
      snapshots (snd (restart_game e s rid r)) = [fst (restart_game e s rid r)] \<and>
      drawerUserKey (game (fst (restart_game e s rid r))) = None \<and>
      guesserUserKey (game (fst (restart_game e s rid r))) = None"
    by (auto simp add: restart_game_def Let_def startRound_def c)
  have 3: "drawerUserKey (game (fst (disconnect_room s r))) = drawerUserKey (game r) \<and>
           guesserUserKey (game (fst (disconnect_room s r))) = guesserUserKey (game r)"
    by (simp add: disconnect_room_def Let_def split: option.split)
  show ?thesis using 1 2 3 by blast
qed

text \<open>
  C9, amended, at the room that Ann has created alone, and at the room that Bob has left:
  there Ann's restart clears the roles.
\<close>

theorem C9_roles_cleared_witness:
  "c9_alone \<in> set (snapshots (snd (exec [join_a] []))) \<and> length (users c9_alone) < 2 \<and>
   drawerUserKey (game c9_alone) = None \<and> guesserUserKey (game c9_alone) = None \<and>
   by_socket ''s1'' c9_room \<noteq> None \<and> length (filter connected (users c9_room)) < 2 \<and>
   drawerUserKey (game c9_room) = Some ''a'' \<and>
   drawerUserKey (game (fst (restart_game env0 ''s1'' ''R1'' c9_room))) = None \<and>
   guesserUserKey (game (fst (restart_game env0 ''s1'' ''R1'' c9_room))) = None"
proof -
  have a: "c9_alone \<in> set (snapshots (snd (exec [join_a] [])))" "length (users c9_alone) < 2"
    by code_simp+
  have b: "by_socket ''s1'' c9_room \<noteq> None" "length (filter connected (users c9_room)) < 2"
          "drawerUserKey (game c9_room) = Some ''a''"
    by code_simp+
  from C9_roles_cleared[of c9_alone "[join_a]" "''s1''" c9_room env0 "''R1''"] a b
  show ?thesis by simp
qed

subsection \<open>C10: the join that creates the room\<close>

text \<open>
  C10. A \<open>JOIN_ROOM\<close> that names a room identifier with no room always succeeds, whatever
  the pin: the room is created with the joiner as its only member and the given pin as the
  room's pin, and the snapshot is sent. A later join to this room with another pin is
  refused with the pin error and changes nothing; a later join with the same pin never gets
  the pin error.
\<close>

theorem C10_creating_join_ignores_pin:
  assumes "map_of rs rid = None"
  shows "join_room e s rid p n c k rs =
           (AList.update rid (new_room s rid p n c k) rs,
            [(Self s, ROOM_STATE (new_room s rid p n c k)),
             (To (Some rid), ROOM_STATE (new_room s rid p n c k))]) \<and>
         map_of (fst (join_room e s rid p n c k rs)) rid = Some (new_room s rid p n c k) \<and>
         users (new_room s rid p n c k) = [new_user s n c k] \<and>
         userKey (new_user s n c k) = k \<and> socketId (new_user s n c k) = Some s \<and>
         pin (new_room s rid p n c k) = p \<and>
         (p' \<noteq> p \<longrightarrow>
            join_room e' s' rid p' n' c' k' (fst (join_room e s rid p n c k rs)) =
              (fst (join_room e s rid p n c k rs),
               [(Self s', JOIN_ERROR ''Invalid PIN for this room.'')])) \<and>
         (Self s', JOIN_ERROR ''Invalid PIN for this room.'') \<notin>
            set (snd (join_room e' s' rid p n' c' k' (fst (join_room e s rid p n c k rs))))"
proof -
  let ?room = "new_room s rid p n c k"
  let ?rs = "AList.update rid ?room rs"
  have 1: "join_room e s rid p n c k rs =
             (?rs, [(Self s, ROOM_STATE ?room), (To (Some rid), ROOM_STATE ?room)])"
    using assms by (simp add: join_room_def Let_def)
  have 2: "map_of ?rs rid = Some ?room" by (simp add: update_conv')
  have 3: "pin ?room = p" "users ?room = [new_user s n c k]"
    by (simp_all add: new_room_def)
  have 4: "p' \<noteq> p \<Longrightarrow> join_room e' s' rid p' n' c' k' ?rs =
             (?rs, [(Self s', JOIN_ERROR ''Invalid PIN for this room.'')])"
    using 2 3 by (simp add: join_room_def join_existing_def update_triv)
  have 5: "(Self s', JOIN_ERROR ''Invalid PIN for this room.'') \<notin>
             set (snd (join_room e' s' rid p n' c' k' ?rs))"
    using 2 3(1) no_pin_error_join_existing[of ?room p "Self s'" e' s' rid n' c' k']
    by (cases "join_existing e' s' rid p n' c' k' ?room") (simp add: join_room_def)
  show ?thesis using 1 2 3 4 5 by (simp add: new_user_def)
qed

text \<open>
  C10 at the empty registry: Ann's join with pin \<open>1234\<close> creates room \<open>R1\<close>, and Bob's
  join with pin \<open>0000\<close> is refused.
\<close>

theorem C10_creating_join_ignores_pin_witness:
  "map_of ([] :: rooms) ''R1'' = None \<and> ''0000'' \<noteq> ''1234'' \<and>
   pin (new_room ''s1'' ''R1'' ''1234'' (Some ''Ann'') (Some ''red'') (Some ''a'')) = ''1234'' \<and>
   join_room env0 ''s2'' ''R1'' ''0000'' (Some ''Bob'') (Some ''blue'') (Some ''b'')
     (fst (join_room env0 ''s1'' ''R1'' ''1234'' (Some ''Ann'') (Some ''red'') (Some ''a'') [])) =
     (fst (join_room env0 ''s1'' ''R1'' ''1234'' (Some ''Ann'') (Some ''red'') (Some ''a'') []),
      [(Self ''s2'', JOIN_ERROR ''Invalid PIN for this room.'')])"
proof -
  have h: "map_of ([] :: rooms) ''R1'' = None" by simp
  have n: "''0000'' \<noteq> ''1234''" by simp
  from C10_creating_join_ignores_pin[OF h, of env0 "''s1''" "''1234''" "Some ''Ann''" "Some ''red''" "Some ''a''"
        "''0000''" env0 "''s2''" "Some ''Bob''" "Some ''blue''" "Some ''b''"] n h
  show ?thesis by blast
qed

end
